theory Spec2Isabelle
  imports Main "HOL-Library.AList"
begin

section \<open>Channel launchers of the Kolibri desktop plugin\<close>

text \<open>
  A shallow embedding of \<^verbatim>\<open>channel_launchers.py\<close>. Python strings are modelled as
  \<^typ>\<open>string\<close>, one \<^typ>\<open>char\<close> per code point, so the model covers the
  strings whose code points lie below 256. Every exception of the source is a value
  of \<open>py_error\<close>; all of them are subclasses of Python's \<^verbatim>\<open>Exception\<close>.
\<close>

subsection \<open>Python strings and integers\<close>

datatype py_error =
    ValueError | TypeError | AttributeError | NotImplementedError | OSError
  | ConfigParserError

definition is_digit :: "char \<Rightarrow> bool" where
  "is_digit c = (48 \<le> (of_char c :: nat) \<and> (of_char c :: nat) \<le> 57)"

text \<open>The characters that \<^verbatim>\<open>int()\<close> skips at both ends of its argument.\<close>

definition is_space :: "char \<Rightarrow> bool" where
  "is_space c = ((of_char c :: nat) \<in> {9, 10, 11, 12, 13, 32, 133, 160})"

text \<open>
  The regular expression class \<^verbatim>\<open>\w\<close> on a \<^verbatim>\<open>str\<close> pattern: the underscore and
  every character for which \<^verbatim>\<open>str.isalnum\<close> holds.
\<close>

definition is_word_char :: "char \<Rightarrow> bool" where
  "is_word_char c =
     (let n = (of_char c :: nat) in
        (48 \<le> n \<and> n \<le> 57) \<or> (65 \<le> n \<and> n \<le> 90) \<or> n = 95 \<or> (97 \<le> n \<and> n \<le> 122)
        \<or> n = 170 \<or> n = 178 \<or> n = 179 \<or> n = 181 \<or> n = 185 \<or> n = 186
        \<or> (188 \<le> n \<and> n \<le> 190) \<or> (192 \<le> n \<and> n \<le> 214)
        \<or> (216 \<le> n \<and> n \<le> 246) \<or> (248 \<le> n \<and> n \<le> 255))"

definition strip :: "string \<Rightarrow> string" where
  "strip s = rev (dropWhile is_space (rev (dropWhile is_space s)))"

fun dec_value :: "int \<Rightarrow> string \<Rightarrow> int" where
  "dec_value acc [] = acc"
| "dec_value acc (c # cs) = dec_value (10 * acc + (int (of_char c) - 48)) cs"

fun double_underscore :: "string \<Rightarrow> bool" where
  "double_underscore (a # b # cs) =
     ((a = CHR ''_'' \<and> b = CHR ''_'') \<or> double_underscore (b # cs))"
| "double_underscore cs = False"

text \<open>
  \<^verbatim>\<open>int(s)\<close> for a string \<open>s\<close> in base ten: surrounding whitespace is skipped, one
  sign is allowed, and the digits may be grouped by single underscores. \<open>None\<close> is
  the \<^verbatim>\<open>ValueError\<close>. The first argument is the interpreter's limit on the number
  of digits (\<^verbatim>\<open>sys.get_int_max_str_digits()\<close>, where \<open>0\<close> switches the limit off);
  the interpreter applies it only to more than 640 digits.
\<close>

definition py_int :: "nat \<Rightarrow> string \<Rightarrow> int option" where
  "py_int max_str_digits s =
     (let t = strip s;
          neg = (t \<noteq> [] \<and> hd t = CHR ''-'');
          body = (if t \<noteq> [] \<and> (hd t = CHR ''-'' \<or> hd t = CHR ''+'') then tl t else t);
          digits = filter is_digit body
      in if body = [] \<or> hd body = CHR ''_'' \<or> last body = CHR ''_''
            \<or> double_underscore body
            \<or> (\<exists>c \<in> set body. \<not> is_digit c \<and> c \<noteq> CHR ''_'')
            \<or> (640 < length digits \<and> 0 < max_str_digits \<and> max_str_digits < length digits)
         then None
         else Some (if neg then - dec_value 0 digits else dec_value 0 digits))"

text \<open>\<^verbatim>\<open>s.split(sep)\<close> for a separator of one character.\<close>

fun split :: "char \<Rightarrow> string \<Rightarrow> string list" where
  "split sep [] = [[]]"
| "split sep (c # cs) =
     (if c = sep then [] # split sep cs
      else (case split sep cs of p # ps \<Rightarrow> (c # p) # ps | [] \<Rightarrow> [[c]]))"

text \<open>\<^verbatim>\<open>"{}".format(x)\<close> for a value that is a string or \<^verbatim>\<open>None\<close>.\<close>

definition py_str :: "string option \<Rightarrow> string" where
  "py_str v = (case v of None \<Rightarrow> ''None'' | Some s \<Rightarrow> s)"

subsection \<open>Paths\<close>

text \<open>\<^verbatim>\<open>os.path.join\<close> and \<^verbatim>\<open>os.path.basename\<close> of \<^verbatim>\<open>posixpath\<close>.\<close>

definition path_join :: "string \<Rightarrow> string \<Rightarrow> string" where
  "path_join a b =
     (if b \<noteq> [] \<and> hd b = CHR ''/'' then b
      else if a = [] \<or> last a = CHR ''/'' then a @ b
      else a @ ''/'' @ b)"

definition basename :: "string \<Rightarrow> string" where
  "basename p = rev (takeWhile (\<lambda>c. c \<noteq> CHR ''/'') (rev p))"

subsection \<open>The environment and the launchers\<close>

text \<open>
  What the module takes from outside: the directory returned by
  \<^verbatim>\<open>get_content_share_dir_path()\<close>; what \<^verbatim>\<open>configparser\<close> reads from the text of a
  file (an error when the text does not parse or a value does not interpolate,
  \<open>None\<close> when there is no section \<^verbatim>\<open>Desktop Entry\<close>, else that section's items as a
  dictionary); the image pipeline of \<^verbatim>\<open>ChannelIcon\<close>, from the base64 payload of the
  thumbnail to the bytes of the icon file; and the interpreter's digit limit.
\<close>

record env =
  content_share_dir :: string
  read_desktop_entry :: "string \<Rightarrow> py_error + (string \<rightharpoonup> string) option"
  icon_image_bytes :: "string \<Rightarrow> py_error + string"
  int_max_str_digits :: nat

text \<open>A row of \<^verbatim>\<open>ChannelMetadata\<close>; \<open>cm_version\<close> is the text that \<^verbatim>\<open>format\<close> prints.\<close>

record channelmetadata =
  cm_id :: string
  cm_version :: string
  cm_name :: string
  cm_tagline :: "string option"
  cm_thumbnail :: "string option"

datatype launcher =
    FromDatabase channelmetadata
  | FromDisk string "string \<rightharpoonup> string"

definition LAUNCHER_CATEGORIES :: "string list" where
  "LAUNCHER_CATEGORIES = [''Education'', ''X-Kolibri-Channel'']"

definition LAUNCHER_PREFIX :: string where
  "LAUNCHER_PREFIX = ''org.learningequality.Kolibri.Channel.''"

definition FORMAT_VERSION :: string where
  "FORMAT_VERSION = ''5''"

definition applications_dir :: "env \<Rightarrow> string" where
  "applications_dir e = path_join (content_share_dir e) ''applications''"

definition icon_theme_dir :: "env \<Rightarrow> string" where
  "icon_theme_dir e = path_join (path_join (content_share_dir e) ''icons'') ''hicolor''"

fun channel_id :: "launcher \<Rightarrow> string option" where
  "channel_id (FromDatabase cm) = Some (cm_id cm)"
| "channel_id (FromDisk p d) = d ''X-Kolibri-Channel-Id''"

fun channel_version :: "launcher \<Rightarrow> string option" where
  "channel_version (FromDatabase cm) = Some (cm_version cm @ ''~'' @ FORMAT_VERSION)"
| "channel_version (FromDisk p d) = d ''X-Kolibri-Channel-Version''"

fun desktop_file_name :: "launcher \<Rightarrow> string" where
  "desktop_file_name (FromDatabase cm) = LAUNCHER_PREFIX @ cm_id cm @ ''.desktop''"
| "desktop_file_name (FromDisk p d) = basename p"

fun desktop_file_path :: "env \<Rightarrow> launcher \<Rightarrow> string" where
  "desktop_file_path e (FromDatabase cm) =
     path_join (applications_dir e) (desktop_file_name (FromDatabase cm))"
| "desktop_file_path e (FromDisk p d) = p"

definition get_icon_file_path :: "env \<Rightarrow> string \<Rightarrow> string" where
  "get_icon_file_path e file_name =
     path_join (path_join (path_join (icon_theme_dir e) ''256x256'') ''apps'') file_name"

definition is_same_channel :: "launcher \<Rightarrow> launcher \<Rightarrow> bool" where
  "is_same_channel self other = (channel_id self = channel_id other)"

text \<open>
  \<^verbatim>\<open>a, b = map(int, version.split("~"))\<close>: \<^verbatim>\<open>AttributeError\<close> when the version is
  \<^verbatim>\<open>None\<close>, \<^verbatim>\<open>ValueError\<close> when there are not exactly two parts or one is no integer.
\<close>

definition parse_version :: "env \<Rightarrow> string option \<Rightarrow> py_error + int \<times> int" where
  "parse_version e v =
     (case v of
        None \<Rightarrow> Inl AttributeError
      | Some s \<Rightarrow>
          (case map (py_int (int_max_str_digits e)) (split CHR ''~'' s) of
             [Some a, Some b] \<Rightarrow> Inr (a, b)
           | _ \<Rightarrow> Inl ValueError))"

text \<open>\<^verbatim>\<open>x or y\<close> on integers.\<close>

definition int_or :: "int \<Rightarrow> int \<Rightarrow> int" where
  "int_or x y = (if x \<noteq> 0 then x else y)"

definition compare :: "env \<Rightarrow> launcher \<Rightarrow> launcher \<Rightarrow> py_error + int option" where
  "compare e self other =
     (if \<not> is_same_channel self other then Inr None
      else
        (case parse_version e (channel_version self) of
           Inl err \<Rightarrow> Inl err
         | Inr (self_channel, self_format) \<Rightarrow>
             (case parse_version e (channel_version other) of
                Inl err \<Rightarrow> Inl err
              | Inr (other_channel, other_format) \<Rightarrow>
                  Inr (Some (int_or (self_channel - other_channel)
                                    (self_format - other_format))))))"

subsection \<open>The file system, the log and the processes\<close>

text \<open>
  The state outside the program: the regular files with their contents, in the order
  in which a directory scan returns them; the paths at which the operating system
  refuses to create, write or remove a file (a missing directory that cannot be
  made, a read-only file: \<^verbatim>\<open>ensure_dir\<close>, \<^verbatim>\<open>open\<close> and \<^verbatim>\<open>os.remove\<close> raise
  \<^verbatim>\<open>OSError\<close> there); the records written to the logger; the commands started with
  \<^verbatim>\<open>subprocess.run\<close>, and whether starting a command fails.
\<close>

datatype log_arg = Str string | Exc py_error

datatype log_record = Info string "log_arg list" | Warning string "log_arg list"

record world =
  files :: "(string \<times> string) list"
  denied :: "string \<Rightarrow> bool"
  log :: "log_record list"
  commands :: "string list list"
  spawn_fails :: bool

definition lookup :: "world \<Rightarrow> string \<Rightarrow> string option" where
  "lookup w p = map_of (files w) p"

definition isfile :: "world \<Rightarrow> string \<Rightarrow> bool" where
  "isfile w p = (lookup w p \<noteq> None)"

definition logger :: "log_record \<Rightarrow> world \<Rightarrow> world" where
  "logger r w = w\<lparr>log := log w @ [r]\<rparr>"

text \<open>\<^verbatim>\<open>ensure_dir(p)\<close> followed by \<^verbatim>\<open>open(p, "w")\<close> and the write of the whole text.\<close>

definition write_file :: "string \<Rightarrow> string \<Rightarrow> world \<Rightarrow> (py_error + unit) \<times> world" where
  "write_file p text w =
     (if denied w p then (Inl OSError, w)
      else (Inr (), w\<lparr>files := AList.update p text (files w)\<rparr>))"

definition os_remove :: "string \<Rightarrow> world \<Rightarrow> (py_error + unit) \<times> world" where
  "os_remove p w =
     (if lookup w p = None \<or> denied w p then (Inl OSError, w)
      else (Inr (), w\<lparr>files := AList.delete p (files w)\<rparr>))"

text \<open>
  Modelled from the spec: \<^verbatim>\<open>try_remove\<close> of \<^verbatim>\<open>path_utils\<close>, which is not among the
  sources. The spec calls it a best-effort removal that never raises, also when the
  file does not exist.
\<close>

definition try_remove :: "string \<Rightarrow> world \<Rightarrow> world" where
  "try_remove p w = (case os_remove p w of (Inl err, w') \<Rightarrow> w' | (Inr u, w') \<Rightarrow> w')"

text \<open>
  The names of the files that lie directly in a directory: \<^verbatim>\<open>os.listdir\<close>, without
  the subdirectories, which \<^verbatim>\<open>ConfigParser.read\<close> cannot open and passes over.
\<close>

definition entry_name :: "string \<Rightarrow> string \<Rightarrow> string option" where
  "entry_name d p =
     (let pre = path_join d []; n = drop (length pre) p
      in if take (length pre) p = pre \<and> n \<noteq> [] \<and> CHR ''/'' \<notin> set n then Some n else None)"

definition listdir :: "world \<Rightarrow> string \<Rightarrow> string list" where
  "listdir w d = List.map_filter (entry_name d) (map fst (files w))"

definition isdir :: "world \<Rightarrow> string \<Rightarrow> bool" where
  "isdir w d =
     (\<exists>p \<in> set (map fst (files w)).
        take (length (path_join d [])) p = path_join d [] \<and> length (path_join d []) < length p)"

subsection \<open>ChannelIcon\<close>

text \<open>
  \<^verbatim>\<open>DATA_URI_PATTERN.match\<close>: the text \<^verbatim>\<open>data:\<close>, the longest run of characters of
  the class \<^verbatim>\<open>[\w\/\+-]\<close>, the text \<^verbatim>\<open>;base64,\<close>, and then the rest of the line (the
  dot matches no newline). The result is the dictionary of the two named groups.
\<close>

definition is_mimetype_char :: "char \<Rightarrow> bool" where
  "is_mimetype_char c = (is_word_char c \<or> c = CHR ''/'' \<or> c = CHR ''+'' \<or> c = CHR ''-'')"

definition DATA_URI_PATTERN_match :: "string \<Rightarrow> (string \<times> string) option" where
  "DATA_URI_PATTERN_match s =
     (if take 5 s = ''data:'' then
        (let r = drop 5 s;
             mimetype = takeWhile is_mimetype_char r;
             r' = dropWhile is_mimetype_char r
         in if take 8 r' = '';base64,''
            then Some (mimetype, takeWhile (\<lambda>c. c \<noteq> CHR 0x0A) (drop 8 r'))
            else None)
      else None)"

text \<open>\<^verbatim>\<open>ChannelIcon.__init__\<close>; matching \<^verbatim>\<open>None\<close> raises \<^verbatim>\<open>TypeError\<close>.\<close>

definition ChannelIcon :: "string option \<Rightarrow> py_error + string \<times> string" where
  "ChannelIcon thumbnail_data_uri =
     (case thumbnail_data_uri of
        None \<Rightarrow> Inl TypeError
      | Some s \<Rightarrow>
          (case DATA_URI_PATTERN_match s of
             None \<Rightarrow> Inl ValueError
           | Some thumbnail_info \<Rightarrow> Inr thumbnail_info))"

definition file_extension :: string where
  "file_extension = ''.png''"

text \<open>The property \<^verbatim>\<open>__channel_icon\<close>: only \<^verbatim>\<open>ValueError\<close> is turned into \<^verbatim>\<open>None\<close>.\<close>

definition channel_icon :: "channelmetadata \<Rightarrow> py_error + (string \<times> string) option" where
  "channel_icon cm =
     (case ChannelIcon (cm_thumbnail cm) of
        Inl err \<Rightarrow> (if err = ValueError then Inr None else Inl err)
      | Inr icon \<Rightarrow> Inr (Some icon))"

subsection \<open>Writing the desktop entry\<close>

text \<open>
  \<^verbatim>\<open>ConfigParser.set\<close> refuses a value with a percent sign that is neither doubled nor
  the start of a reference \<^verbatim>\<open>%(name)s\<close>: it deletes every \<^verbatim>\<open>%%\<close>, then every
  reference, and raises \<^verbatim>\<open>ValueError\<close> when a percent sign is left. A percent sign is
  left exactly when the scan below meets one at which no reference starts.
\<close>

fun remove_double_percent :: "string \<Rightarrow> string" where
  "remove_double_percent (a # b # cs) =
     (if a = CHR ''%'' \<and> b = CHR ''%'' then remove_double_percent cs
      else a # remove_double_percent (b # cs))"
| "remove_double_percent cs = cs"

datatype scan_state = Outside | AfterPercent | InName nat | AfterClose

fun percent_left :: "scan_state \<Rightarrow> string \<Rightarrow> bool" where
  "percent_left Outside [] = False"
| "percent_left st [] = True"
| "percent_left Outside (c # cs) =
     percent_left (if c = CHR ''%'' then AfterPercent else Outside) cs"
| "percent_left AfterPercent (c # cs) =
     (if c = CHR ''('' then percent_left (InName 0) cs else True)"
| "percent_left (InName k) (c # cs) =
     (if c = CHR '')'' then (if k = 0 then True else percent_left AfterClose cs)
      else percent_left (InName (Suc k)) cs)"
| "percent_left AfterClose (c # cs) =
     (if c = CHR ''s'' then percent_left Outside cs else True)"

definition invalid_interpolation :: "string \<Rightarrow> bool" where
  "invalid_interpolation v = (v \<noteq> [] \<and> percent_left Outside (remove_double_percent v))"

text \<open>\<^verbatim>\<open>parser.set("Desktop Entry", option, value)\<close> on the items of the section.\<close>

definition parser_set ::
  "string \<Rightarrow> string \<Rightarrow> (string \<times> string) list \<Rightarrow> py_error + (string \<times> string) list" where
  "parser_set option v items =
     (if invalid_interpolation v then Inl ValueError else Inr (AList.update option v items))"

fun parser_set_all ::
  "(string \<times> string) list \<Rightarrow> (string \<times> string) list \<Rightarrow> py_error + (string \<times> string) list" where
  "parser_set_all [] items = Inr items"
| "parser_set_all ((option, v) # rest) items =
     (case parser_set option v items of
        Inl err \<Rightarrow> Inl err
      | Inr items' \<Rightarrow> parser_set_all rest items')"

text \<open>
  \<^verbatim>\<open>parser.write(f, space_around_delimiters=False)\<close> for the one section: the header,
  one line \<^verbatim>\<open>key=value\<close> per item with every newline of the value followed by a tab,
  and an empty line.
\<close>

fun continuation :: "string \<Rightarrow> string" where
  "continuation [] = []"
| "continuation (c # cs) =
     (if c = CHR 0x0A then CHR 0x0A # CHR 0x09 # continuation cs else c # continuation cs)"

definition item_line :: "string \<times> string \<Rightarrow> string" where
  "item_line kv = fst kv @ ''='' @ continuation (snd kv) @ [CHR 0x0A]"

definition parser_write :: "(string \<times> string) list \<Rightarrow> string" where
  "parser_write items =
     ''[Desktop Entry]'' @ [CHR 0x0A] @ concat (map item_line items) @ [CHR 0x0A]"

text \<open>\<^verbatim>\<open>";".join(xs) + ";"\<close>.\<close>

fun join_semicolon :: "string list \<Rightarrow> string" where
  "join_semicolon [] = []"
| "join_semicolon [x] = x"
| "join_semicolon (x # xs) = x @ '';'' @ join_semicolon xs"

text \<open>The calls of \<^verbatim>\<open>set\<close> in \<^verbatim>\<open>write_desktop_file\<close>, in their order.\<close>

definition desktop_entry_items :: "channelmetadata \<Rightarrow> string option \<Rightarrow> (string \<times> string) list" where
  "desktop_entry_items cm icon_name =
     [(''Version'', ''1.0''),
      (''Type'', ''Application''),
      (''Name'', cm_name cm),
      (''Comment'', (case cm_tagline cm of None \<Rightarrow> [] | Some t \<Rightarrow> t)),
      (''Exec'', ''flatpak run org.learningequality.Kolibri --channel-id '' @ cm_id cm),
      (''X-Endless-LaunchMaximized'', ''True''),
      (''X-Kolibri-Channel-Id'', cm_id cm),
      (''X-Kolibri-Channel-Version'', cm_version cm @ ''~'' @ FORMAT_VERSION),
      (''Categories'', join_semicolon LAUNCHER_CATEGORIES @ '';'')]
     @ (case icon_name of
          None \<Rightarrow> []
        | Some n \<Rightarrow> (if n \<noteq> [] then [(''Icon'', n)] else []))"

fun write_desktop_file ::
  "env \<Rightarrow> launcher \<Rightarrow> string option \<Rightarrow> world \<Rightarrow> (py_error + unit) \<times> world" where
  "write_desktop_file e (FromDatabase cm) icon_name w =
     (case parser_set_all (desktop_entry_items cm icon_name) [] of
        Inl err \<Rightarrow> (Inl err, w)
      | Inr items \<Rightarrow>
          write_file (desktop_file_path e (FromDatabase cm)) (parser_write items) w)"
| "write_desktop_file e (FromDisk p d) icon_name w = (Inl NotImplementedError, w)"

subsection \<open>Writing and deleting the icon\<close>

text \<open>
  \<^verbatim>\<open>open(icon_file_path, "wb")\<close> empties the file before \<^verbatim>\<open>ChannelIcon.write\<close>
  computes the image, so an error of the image pipeline leaves an empty file.
\<close>

fun write_channel_icon ::
  "env \<Rightarrow> launcher \<Rightarrow> world \<Rightarrow> (py_error + string option) \<times> world" where
  "write_channel_icon e (FromDatabase cm) w =
     (case channel_icon cm of
        Inl err \<Rightarrow> (Inl err, w)
      | Inr None \<Rightarrow> (Inr None, w)
      | Inr (Some (mimetype, data_b64)) \<Rightarrow>
          (let icon_name = LAUNCHER_PREFIX @ cm_id cm;
               icon_file_path = get_icon_file_path e (icon_name @ file_extension)
           in case write_file icon_file_path [] w of
                (Inl err, w') \<Rightarrow> (Inl err, w')
              | (Inr u, w') \<Rightarrow>
                  (case icon_image_bytes e data_b64 of
                     Inl err \<Rightarrow> (Inl err, w')
                   | Inr bytes \<Rightarrow>
                       (Inr (Some icon_name),
                        w'\<lparr>files := AList.update icon_file_path bytes (files w')\<rparr>))))"
| "write_channel_icon e (FromDisk p d) w = (Inr None, w)"

fun delete_channel_icon :: "env \<Rightarrow> launcher \<Rightarrow> world \<Rightarrow> (py_error + unit) \<times> world" where
  "delete_channel_icon e (FromDatabase cm) w = (Inl NotImplementedError, w)"
| "delete_channel_icon e (FromDisk p d) w =
     (let icon_name = LAUNCHER_PREFIX @ py_str (channel_id (FromDisk p d));
          icon_file_path = get_icon_file_path e (icon_name @ ''.png'')
      in if isfile w icon_file_path then (Inr (), try_remove icon_file_path w)
         else (Inr (), w))"

definition delete_desktop_file :: "env \<Rightarrow> launcher \<Rightarrow> world \<Rightarrow> (py_error + unit) \<times> world" where
  "delete_desktop_file e self w = os_remove (desktop_file_path e self) w"

subsection \<open>save and delete\<close>

definition save :: "env \<Rightarrow> launcher \<Rightarrow> world \<Rightarrow> (py_error + unit) \<times> world" where
  "save e self w =
     (let (icon_name, w1) =
            (case write_channel_icon e self w of
               (Inl error, w') \<Rightarrow>
                 (None,
                  logger (Warning ''Error writing icon file for channel %s: %s''
                            [Str (py_str (channel_id self)), Exc error]) w')
             | (Inr n, w') \<Rightarrow> (n, w'))
      in case write_desktop_file e self icon_name w1 of
           (Inl error, w2) \<Rightarrow>
             (Inr (),
              logger (Warning ''Error writing desktop file for channel %s: %s''
                        [Str (py_str (channel_id self)), Exc error]) w2)
         | (Inr u, w2) \<Rightarrow> (Inr (), w2))"

definition delete :: "env \<Rightarrow> launcher \<Rightarrow> world \<Rightarrow> (py_error + unit) \<times> world" where
  "delete e self w =
     (case delete_desktop_file e self w of
        (Inl err, w') \<Rightarrow> (Inl err, w')
      | (Inr u, w') \<Rightarrow> delete_channel_icon e self w')"

subsection \<open>Loading the launchers\<close>

text \<open>
  \<^verbatim>\<open>ChannelLauncher_FromDatabase.load_all\<close>: one launcher for every row that the query
  \<^verbatim>\<open>ChannelMetadata.objects.filter(root__available=True)\<close> returns.
\<close>

definition FromDatabase_load_all :: "channelmetadata list \<Rightarrow> launcher list" where
  "FromDatabase_load_all available = map FromDatabase available"

text \<open>
  The loop of \<^verbatim>\<open>ChannelLauncher_FromDisk.load_all\<close>. \<^verbatim>\<open>ConfigParser.read\<close> passes over
  a file it cannot open and raises on a text it cannot parse; the generator is
  consumed by \<^verbatim>\<open>list\<close>, so an error of one file is the error of the whole call.
\<close>

fun load_entries :: "env \<Rightarrow> world \<Rightarrow> string \<Rightarrow> string list \<Rightarrow> py_error + launcher list" where
  "load_entries e w d [] = Inr []"
| "load_entries e w d (file_name # rest) =
     (let file_path = path_join d file_name
      in case (case lookup w file_path of
                 None \<Rightarrow> Inr None
               | Some text \<Rightarrow> read_desktop_entry e text) of
           Inl err \<Rightarrow> Inl err
         | Inr None \<Rightarrow> load_entries e w d rest
         | Inr (Some desktop_entry_data) \<Rightarrow>
             (case load_entries e w d rest of
                Inl err \<Rightarrow> Inl err
              | Inr ls \<Rightarrow> Inr (FromDisk file_path desktop_entry_data # ls)))"

definition FromDisk_load_all :: "env \<Rightarrow> world \<Rightarrow> py_error + launcher list" where
  "FromDisk_load_all e w =
     (let d = path_join (content_share_dir e) ''applications''
      in if \<not> isdir w d then Inr [] else load_entries e w d (listdir w d))"

subsection \<open>update\_channel\_launchers\<close>

text \<open>The first loop: the launchers on disk whose channel the database no longer has.\<close>

fun remove_loop ::
  "env \<Rightarrow> launcher list \<Rightarrow> launcher list \<Rightarrow> bool \<Rightarrow> world \<Rightarrow> (py_error + bool) \<times> world" where
  "remove_loop e launchers_from_db [] did_icons_change w = (Inr did_icons_change, w)"
| "remove_loop e launchers_from_db (launcher # rest) did_icons_change w =
     (if \<not> list_ex (is_same_channel launcher) launchers_from_db then
        (case delete e launcher
                (logger (Info ''Removing desktop launcher %s''
                           [Str (desktop_file_name launcher)]) w) of
           (Inl err, w') \<Rightarrow> (Inl err, w')
         | (Inr u, w') \<Rightarrow> remove_loop e launchers_from_db rest True w')
      else remove_loop e launchers_from_db rest did_icons_change w)"

text \<open>
  \<^verbatim>\<open>any(map(launcher.compare, launchers_from_disk))\<close>: the comparisons are made in
  order, up to the first result that is neither \<^verbatim>\<open>None\<close> nor \<open>0\<close>; an error of a
  comparison is the error of the whole expression.
\<close>

fun any_compare :: "env \<Rightarrow> launcher \<Rightarrow> launcher list \<Rightarrow> py_error + bool" where
  "any_compare e launcher [] = Inr False"
| "any_compare e launcher (other # rest) =
     (case compare e launcher other of
        Inl err \<Rightarrow> Inl err
      | Inr None \<Rightarrow> any_compare e launcher rest
      | Inr (Some n) \<Rightarrow> (if n \<noteq> 0 then Inr True else any_compare e launcher rest))"

text \<open>The second loop: the launchers of the database that are created or updated.\<close>

fun save_loop ::
  "env \<Rightarrow> bool \<Rightarrow> launcher list \<Rightarrow> launcher list \<Rightarrow> bool \<Rightarrow> world \<Rightarrow> (py_error + bool) \<times> world" where
  "save_loop e force launchers_from_disk [] did_icons_change w = (Inr did_icons_change, w)"
| "save_loop e force launchers_from_disk (launcher # rest) did_icons_change w =
     (if \<not> list_ex (is_same_channel launcher) launchers_from_disk then
        (case save e launcher
                (logger (Info ''Creating desktop launcher %s''
                           [Str (desktop_file_name launcher)]) w) of
           (Inl err, w') \<Rightarrow> (Inl err, w')
         | (Inr u, w') \<Rightarrow> save_loop e force launchers_from_disk rest True w')
      else
        (case (if force then Inr True else any_compare e launcher launchers_from_disk) of
           Inl err \<Rightarrow> (Inl err, w)
         | Inr True \<Rightarrow>
             (case save e launcher
                     (logger (Info ''Updating desktop launcher %s''
                                [Str (desktop_file_name launcher)]) w) of
                (Inl err, w') \<Rightarrow> (Inl err, w')
              | (Inr u, w') \<Rightarrow> save_loop e force launchers_from_disk rest True w')
         | Inr False \<Rightarrow> save_loop e force launchers_from_disk rest did_icons_change w))"

text \<open>
  Lines 44 to 60 of the source: both loops, with the value of \<^verbatim>\<open>did_icons_change\<close>
  after them.
\<close>

definition reconcile ::
  "env \<Rightarrow> bool \<Rightarrow> launcher list \<Rightarrow> launcher list \<Rightarrow> world \<Rightarrow> (py_error + bool) \<times> world" where
  "reconcile e force launchers_from_db launchers_from_disk w =
     (case remove_loop e launchers_from_db launchers_from_disk False w of
        (Inl err, w') \<Rightarrow> (Inl err, w')
      | (Inr did_icons_change, w') \<Rightarrow>
          save_loop e force launchers_from_disk launchers_from_db did_icons_change w')"

text \<open>
  Lines 63 to 75: the theme index is copied (\<^verbatim>\<open>shutil.copyfile\<close> raises \<^verbatim>\<open>OSError\<close>
  when the source is missing or the target cannot be written), and the icon cache is
  rebuilt by a command whose own effect on the files is outside the model.
\<close>

definition update_icon_cache :: "env \<Rightarrow> world \<Rightarrow> world" where
  "update_icon_cache e w =
     (let system_theme_index = ''/usr/share/icons/hicolor/index.theme'';
          theme_index = path_join (icon_theme_dir e) ''index.theme'';
          (copied, w1) =
            (case lookup w system_theme_index of
               None \<Rightarrow> (False, w)
             | Some text \<Rightarrow>
                 (case write_file theme_index text w of
                    (Inl err, w') \<Rightarrow> (False, w')
                  | (Inr u, w') \<Rightarrow> (True, w')));
          update_icon_cache_params =
            [icon_theme_dir e] @ (if copied then [] else [''--ignore-theme-index''])
      in if spawn_fails w1
         then logger (Info ''Error running gtk-update-icon-cache: %s'' [Exc OSError]) w1
         else w1\<lparr>commands := commands w1 @ [''gtk-update-icon-cache'' # update_icon_cache_params]\<rparr>)"

text \<open>The function returns nothing: its value is Python's \<^verbatim>\<open>None\<close>, here \<open>()\<close>.\<close>

definition update_channel_launchers ::
  "env \<Rightarrow> bool \<Rightarrow> channelmetadata list \<Rightarrow> world \<Rightarrow> (py_error + unit) \<times> world" where
  "update_channel_launchers e force available w =
     (let launchers_from_db = FromDatabase_load_all available
      in case FromDisk_load_all e w of
           Inl err \<Rightarrow> (Inl err, w)
         | Inr launchers_from_disk \<Rightarrow>
             (case reconcile e force launchers_from_db launchers_from_disk w of
                (Inl err, w') \<Rightarrow> (Inl err, w')
              | (Inr did_icons_change, w') \<Rightarrow>
                  (if did_icons_change then (Inr (), update_icon_cache e w')
                   else (Inr (), w'))))"

subsection \<open>The reconciliation as the specification words it\<close>

text \<open>
  \<open>compareVersion\<close> of the specification: incomparable unless both versions parse as
  two integers separated by a tilde, otherwise the order of the two pairs, first by
  the first integer, then by the second.
\<close>

datatype version_order = Less | Equal | Greater | Incomparable

definition compareVersion :: "env \<Rightarrow> launcher \<Rightarrow> launcher \<Rightarrow> version_order" where
  "compareVersion e self other =
     (case (parse_version e (channel_version self), parse_version e (channel_version other)) of
        (Inr (a, b), Inr (c, d)) \<Rightarrow>
          (if a < c \<or> (a = c \<and> b < d) then Less
           else if a = c \<and> b = d then Equal
           else Greater)
      | _ \<Rightarrow> Incomparable)"

text \<open>
  The diff of the specification: a launcher on disk without a match in the source
  list is deleted; a source launcher without a match on disk is created; one with a
  match is updated when the update is forced or its version does not compare equal
  to a match, incomparable counting as not equal.
\<close>

datatype action = Delete launcher | Create launcher | Update launcher

definition spec_source_actions :: "env \<Rightarrow> bool \<Rightarrow> launcher list \<Rightarrow> launcher \<Rightarrow> action list" where
  "spec_source_actions e forceUpdate diskList l =
     (if \<not> (\<exists>d \<in> set diskList. is_same_channel l d) then [Create l]
      else if forceUpdate
              \<or> (\<exists>d \<in> set diskList. is_same_channel l d \<and> compareVersion e l d \<noteq> Equal)
           then [Update l]
           else [])"

definition spec_diff :: "env \<Rightarrow> bool \<Rightarrow> launcher list \<Rightarrow> launcher list \<Rightarrow> action list" where
  "spec_diff e forceUpdate sourceList diskList =
     map Delete (filter (\<lambda>d. \<not> (\<exists>s \<in> set sourceList. is_same_channel d s)) diskList)
     @ concat (map (spec_source_actions e forceUpdate diskList) sourceList)"

text \<open>An action carried out as the source does it: the line in the log, then the call.\<close>

fun apply_action :: "env \<Rightarrow> action \<Rightarrow> world \<Rightarrow> (py_error + unit) \<times> world" where
  "apply_action e (Delete l) w =
     delete e l (logger (Info ''Removing desktop launcher %s'' [Str (desktop_file_name l)]) w)"
| "apply_action e (Create l) w =
     save e l (logger (Info ''Creating desktop launcher %s'' [Str (desktop_file_name l)]) w)"
| "apply_action e (Update l) w =
     save e l (logger (Info ''Updating desktop launcher %s'' [Str (desktop_file_name l)]) w)"

fun apply_actions :: "env \<Rightarrow> action list \<Rightarrow> world \<Rightarrow> (py_error + unit) \<times> world" where
  "apply_actions e [] w = (Inr (), w)"
| "apply_actions e (a # as) w =
     (case apply_action e a w of
        (Inl err, w') \<Rightarrow> (Inl err, w')
      | (Inr u, w') \<Rightarrow> apply_actions e as w')"


subsection \<open>Notions for the idempotence of a pass\<close>

definition is_warning :: "log_record \<Rightarrow> bool" where
  "is_warning r = (case r of Info fmt args \<Rightarrow> False | Warning fmt args \<Rightarrow> True)"

text \<open>The warnings logged so far: a pass without a failure adds none.\<close>

definition warnings :: "world \<Rightarrow> log_record list" where
  "warnings w = filter is_warning (log w)"

text \<open>A path that names a file directly in the launcher directory.\<close>

definition in_applications_dir :: "env \<Rightarrow> string \<Rightarrow> bool" where
  "in_applications_dir e p = (entry_name (applications_dir e) p \<noteq> None)"

text \<open>A launcher that a scan of the launcher directory yields.\<close>

definition on_disk :: "env \<Rightarrow> world \<Rightarrow> launcher \<Rightarrow> bool" where
  "on_disk e w d =
     (\<exists>p content data.
        d = FromDisk p data \<and> in_applications_dir e p \<and> lookup w p = Some content
        \<and> read_desktop_entry e content = Inr (Some data))"



subsection \<open>Example inputs\<close>

definition ex_entry_text :: "string \<Rightarrow> string \<Rightarrow> string" where
  "ex_entry_text i v =
     ''[Desktop Entry]'' @ [CHR 0x0A] @ ''X-Kolibri-Channel-Id='' @ i @ [CHR 0x0A]
     @ ''X-Kolibri-Channel-Version='' @ v @ [CHR 0x0A] @ [CHR 0x0A]"

definition ex_disk :: "string \<Rightarrow> string \<Rightarrow> string \<Rightarrow> launcher" where
  "ex_disk p i v =
     FromDisk p [''X-Kolibri-Channel-Id'' \<mapsto> i, ''X-Kolibri-Channel-Version'' \<mapsto> v]"

definition ex_channel :: "string \<Rightarrow> channelmetadata" where
  "ex_channel v =
     \<lparr>cm_id = ''c1'', cm_version = v, cm_name = ''Math'', cm_tagline = None,
      cm_thumbnail = Some ''data:image/png;base64,AAAA''\<rparr>"

text \<open>
  A table of what \<^verbatim>\<open>configparser\<close> reads from the texts of the examples: an entry
  with an id and a version, the entries that \<^verbatim>\<open>save\<close> writes for the example
  channel with and without an icon, an entry without an id, and a text with another
  section only, in which it finds no section \<^verbatim>\<open>Desktop Entry\<close>. Every other text
  stands for a text without a section header, such as \<^verbatim>\<open>hello\<close>, on which the
  library raises \<^verbatim>\<open>MissingSectionHeaderError\<close>.
\<close>

definition ex_read :: "string \<Rightarrow> py_error + (string \<rightharpoonup> string) option" where
  "ex_read text =
     (if text = ex_entry_text ''c1'' ''1~5''
      then Inr (Some [''X-Kolibri-Channel-Id'' \<mapsto> ''c1'', ''X-Kolibri-Channel-Version'' \<mapsto> ''1~5''])
      else if text = parser_write
                       (desktop_entry_items (ex_channel ''2'') (Some (LAUNCHER_PREFIX @ ''c1'')))
      then Inr (Some (map_of
                       (desktop_entry_items (ex_channel ''2'') (Some (LAUNCHER_PREFIX @ ''c1'')))))
      else if text = parser_write (desktop_entry_items (ex_channel ''2'') None)
      then Inr (Some (map_of (desktop_entry_items (ex_channel ''2'') None)))
      else if text = ''[Desktop Entry]'' @ [CHR 0x0A] @ ''Name=foo'' @ [CHR 0x0A] @ [CHR 0x0A]
      then Inr (Some [''Name'' \<mapsto> ''foo''])
      else if text = ''[Other]'' @ [CHR 0x0A] @ ''x=1'' @ [CHR 0x0A] @ [CHR 0x0A]
      then Inr None
      else Inl ConfigParserError)"

definition ex_env :: env where
  "ex_env =
     \<lparr>content_share_dir = ''/share'', read_desktop_entry = ex_read,
      icon_image_bytes = (\<lambda>data_b64. Inr ''PNG''), int_max_str_digits = 4300\<rparr>"

definition ex_world :: "(string \<times> string) list \<Rightarrow> world" where
  "ex_world fs =
     \<lparr>files = fs, denied = (\<lambda>p. False), log = [], commands = [], spawn_fails = False\<rparr>"

section \<open>Comparing versions\<close>

lemmas py_int_simps = py_int_def strip_def is_space_def is_digit_def

lemma compare_other_channel:
  "\<not> is_same_channel self other \<Longrightarrow> compare e self other = Inr None"
  by (simp add: compare_def)

lemma compare_by_order:
  assumes "is_same_channel self other"
  shows "case compareVersion e self other of
           Less \<Rightarrow> \<exists>n<0. compare e self other = Inr (Some n)
         | Equal \<Rightarrow> compare e self other = Inr (Some 0)
         | Greater \<Rightarrow> \<exists>n>0. compare e self other = Inr (Some n)
         | Incomparable \<Rightarrow> \<exists>err. compare e self other = Inl err"
  using assms
  by (auto simp: compare_def compareVersion_def int_or_def split: sum.splits prod.splits)

text \<open>
  C2, as the code has it. For two launchers of the same channel, \<^verbatim>\<open>compare\<close> raises
  an error when one of the two versions does not parse as two integers separated by
  a tilde; it does not return a value that stands for incomparable. When both parse,
  it returns a negative number, zero or a positive number as the pair of the first
  version is less than, equal to or greater than the pair of the second, first by
  the first integer and then by the second.
\<close>

theorem compare_same_channel:
  assumes "is_same_channel self other"
  shows "(compareVersion e self other = Less \<longrightarrow>
            (\<exists>n<0. compare e self other = Inr (Some n)))
       \<and> (compareVersion e self other = Equal \<longrightarrow> compare e self other = Inr (Some 0))
       \<and> (compareVersion e self other = Greater \<longrightarrow>
            (\<exists>n>0. compare e self other = Inr (Some n)))
       \<and> (compareVersion e self other = Incomparable \<longrightarrow>
            (\<exists>err. compare e self other = Inl err))"
  using compare_by_order [OF assms, of e]
  by (cases "compareVersion e self other") simp_all

text \<open>The versions of the specification's examples, on one channel.\<close>

theorem compare_same_channel_witness:
  "is_same_channel (ex_disk ''p'' ''c'' ''3~5'') (ex_disk ''q'' ''c'' ''3~6'')
   \<and> compare ex_env (ex_disk ''p'' ''c'' ''3~5'') (ex_disk ''q'' ''c'' ''3~5'') = Inr (Some 0)
   \<and> (\<exists>n<0. compare ex_env (ex_disk ''p'' ''c'' ''3~5'') (ex_disk ''q'' ''c'' ''3~6'') = Inr (Some n))
   \<and> (\<exists>n>0. compare ex_env (ex_disk ''p'' ''c'' ''4~1'') (ex_disk ''q'' ''c'' ''3~9'') = Inr (Some n))
   \<and> (\<exists>err. compare ex_env (ex_disk ''p'' ''c'' ''abc~1'') (ex_disk ''q'' ''c'' ''3~1'') = Inl err)"
proof -
  have same: "is_same_channel (ex_disk ''p'' ''c'' u) (ex_disk ''q'' ''c'' v)" for u v
    by (simp add: is_same_channel_def ex_disk_def)
  have o1: "compareVersion ex_env (ex_disk ''p'' ''c'' ''3~5'') (ex_disk ''q'' ''c'' ''3~5'') = Equal"
    by (simp add: compareVersion_def parse_version_def ex_disk_def ex_env_def py_int_simps)
  have o2: "compareVersion ex_env (ex_disk ''p'' ''c'' ''3~5'') (ex_disk ''q'' ''c'' ''3~6'') = Less"
    by (simp add: compareVersion_def parse_version_def ex_disk_def ex_env_def py_int_simps)
  have o3: "compareVersion ex_env (ex_disk ''p'' ''c'' ''4~1'') (ex_disk ''q'' ''c'' ''3~9'') = Greater"
    by (simp add: compareVersion_def parse_version_def ex_disk_def ex_env_def py_int_simps)
  have o4: "compareVersion ex_env (ex_disk ''p'' ''c'' ''abc~1'') (ex_disk ''q'' ''c'' ''3~1'')
            = Incomparable"
    by (simp add: compareVersion_def parse_version_def ex_disk_def ex_env_def py_int_simps)
  show ?thesis
    using same
      compare_same_channel [OF same, of ex_env "''3~5''" "''3~5''"]
      compare_same_channel [OF same, of ex_env "''3~5''" "''3~6''"]
      compare_same_channel [OF same, of ex_env "''4~1''" "''3~9''"]
      compare_same_channel [OF same, of ex_env "''abc~1''" "''3~1''"]
    by (simp add: o1 o2 o3 o4)
qed

text \<open>
  C2 as the claim states it fails: on one channel, with the versions \<^verbatim>\<open>abc~1\<close> and
  \<^verbatim>\<open>3~1\<close>, the specification's comparison is incomparable and \<^verbatim>\<open>compare\<close> raises
  \<^verbatim>\<open>ValueError\<close>.
\<close>

theorem compare_raises_counterexample:
  "is_same_channel (ex_disk ''p'' ''c'' ''abc~1'') (ex_disk ''q'' ''c'' ''3~1'')
   \<and> compareVersion ex_env (ex_disk ''p'' ''c'' ''abc~1'') (ex_disk ''q'' ''c'' ''3~1'')
       = Incomparable
   \<and> compare ex_env (ex_disk ''p'' ''c'' ''abc~1'') (ex_disk ''q'' ''c'' ''3~1'')
       = Inl ValueError"
  by (simp add: compare_def compareVersion_def is_same_channel_def parse_version_def
        ex_disk_def ex_env_def py_int_simps)

lemma any_compare_filter:
  "any_compare e l ds = any_compare e l (filter (is_same_channel l) ds)"
  by (induction ds) (auto simp: compare_def split: sum.splits option.splits)

text \<open>
  C9. For two launchers whose channel ids differ, \<^verbatim>\<open>compare\<close> returns \<^verbatim>\<open>None\<close> and
  raises nothing; and the update check, which maps \<^verbatim>\<open>compare\<close> over all launchers on
  disk, has the result it has on the launchers of the same channel alone: the others
  count as no update needed.
\<close>

theorem compare_other_channel_none:
  "(channel_id self \<noteq> channel_id other \<longrightarrow> compare e self other = Inr None)
   \<and> any_compare e self ds = any_compare e self (filter (is_same_channel self) ds)
   \<and> ((\<forall>d \<in> set ds. channel_id self \<noteq> channel_id d) \<longrightarrow> any_compare e self ds = Inr False)"
proof (intro conjI impI)
  assume "channel_id self \<noteq> channel_id other"
  then show "compare e self other = Inr None"
    by (simp add: compare_other_channel is_same_channel_def)
next
  show "any_compare e self ds = any_compare e self (filter (is_same_channel self) ds)"
    by (rule any_compare_filter)
next
  assume "\<forall>d \<in> set ds. channel_id self \<noteq> channel_id d"
  then have "filter (is_same_channel self) ds = []"
    by (simp add: is_same_channel_def filter_empty_conv)
  then show "any_compare e self ds = Inr False"
    using any_compare_filter [of e self ds] by simp
qed

theorem compare_other_channel_none_witness:
  "channel_id (FromDatabase (ex_channel ''3'')) \<noteq> channel_id (ex_disk ''q'' ''c2'' ''abc'')
   \<and> compare ex_env (FromDatabase (ex_channel ''3'')) (ex_disk ''q'' ''c2'' ''abc'') = Inr None
   \<and> any_compare ex_env (FromDatabase (ex_channel ''3''))
        [ex_disk ''q'' ''c2'' ''abc'', ex_disk ''r'' ''c3'' ''1~5''] = Inr False"
proof -
  let ?a = "FromDatabase (ex_channel ''3'')"
  let ?b = "ex_disk ''q'' ''c2'' ''abc''"
  let ?ds = "[?b, ex_disk ''r'' ''c3'' ''1~5'']"
  have ne: "channel_id ?a \<noteq> channel_id ?b"
    by (simp add: ex_disk_def ex_channel_def)
  have all: "\<forall>d \<in> set ?ds. channel_id ?a \<noteq> channel_id d"
    by (simp add: ex_disk_def ex_channel_def)
  note t = compare_other_channel_none [of ?a ?b ex_env ?ds]
  from t ne have "compare ex_env ?a ?b = Inr None" by blast
  moreover from t all have "any_compare ex_env ?a ?ds = Inr False" by blast
  ultimately show ?thesis using ne by blast
qed

section \<open>Writing the entry and the icon\<close>

lemma update_fresh: "k \<notin> fst ` set al \<Longrightarrow> AList.update k v al = al @ [(k, v)]"
  by (induction al) auto

lemma parser_set_all_result:
  "parser_set_all items acc =
     (if \<exists>v \<in> snd ` set items. invalid_interpolation v then Inl ValueError
      else Inr (fold (\<lambda>(k, v). AList.update k v) items acc))"
proof (induction items arbitrary: acc)
  case Nil
  then show ?case by simp
next
  case (Cons kv items)
  obtain k v where kv: "kv = (k, v)" by (cases kv)
  show ?case
    by (cases "invalid_interpolation v") (simp_all add: kv parser_set_def Cons.IH)
qed

lemma fold_update_fresh:
  "distinct (map fst items) \<Longrightarrow> fst ` set items \<inter> fst ` set acc = {} \<Longrightarrow>
   fold (\<lambda>(k, v). AList.update k v) items acc = acc @ items"
proof (induction items arbitrary: acc)
  case Nil
  then show ?case by simp
next
  case (Cons kv items)
  obtain k v where kv: "kv = (k, v)" by (cases kv)
  from Cons.prems have fresh: "k \<notin> fst ` set acc" by (auto simp: kv)
  from Cons.prems have "distinct (map fst items)"
    and "fst ` set items \<inter> fst ` set (acc @ [(k, v)]) = {}"
    by (auto simp: kv)
  then have "fold (\<lambda>(k, v). AList.update k v) items (acc @ [(k, v)]) = (acc @ [(k, v)]) @ items"
    by (rule Cons.IH)
  then show ?case by (simp add: kv update_fresh [OF fresh])
qed

lemma distinct_desktop_entry_items: "distinct (map fst (desktop_entry_items cm icon_name))"
  by (simp add: desktop_entry_items_def split: option.splits)

lemma write_desktop_file_FromDatabase:
  "write_desktop_file e (FromDatabase cm) icon_name w =
     (if \<exists>v \<in> snd ` set (desktop_entry_items cm icon_name). invalid_interpolation v
      then (Inl ValueError, w)
      else write_file (desktop_file_path e (FromDatabase cm))
             (parser_write (desktop_entry_items cm icon_name)) w)"
  using fold_update_fresh [OF distinct_desktop_entry_items, of cm icon_name "[]"]
  by (simp add: parser_set_all_result)

lemma lookup_write_file:
  "write_file p text w = (Inr u, w') \<Longrightarrow> lookup w' q = (if q = p then Some text else lookup w q)"
  by (auto simp: write_file_def lookup_def update_conv' split: if_splits)

lemma continuation_append [simp]: "continuation (a @ b) = continuation a @ continuation b"
  by (induction a) auto


lemma last_path_join: "b \<noteq> [] \<Longrightarrow> last (path_join a b) = last b"
  by (simp add: path_join_def)

lemma desktop_path_not_icon_path:
  "desktop_file_path e (FromDatabase cm) \<noteq> get_icon_file_path e (n @ ''.png'')"
proof
  assume eq: "desktop_file_path e (FromDatabase cm) = get_icon_file_path e (n @ ''.png'')"
  have "last (desktop_file_path e (FromDatabase cm)) = CHR ''p''"
    by (simp add: last_path_join)
  moreover have "last (get_icon_file_path e (n @ ''.png'')) = CHR ''g''"
    by (simp add: get_icon_file_path_def last_path_join)
  ultimately show False using eq by simp
qed

lemma write_channel_icon_Some:
  assumes "write_channel_icon e (FromDatabase cm) w = (Inr (Some n), w1)"
  shows "n = LAUNCHER_PREFIX @ cm_id cm"
    and "\<exists>mimetype data_b64 bytes.
           channel_icon cm = Inr (Some (mimetype, data_b64))
           \<and> icon_image_bytes e data_b64 = Inr bytes
           \<and> lookup w1 (get_icon_file_path e (n @ ''.png'')) = Some bytes"
  using assms
  by (auto simp: file_extension_def write_file_def lookup_def update_conv' Let_def
           split: sum.splits option.splits prod.splits if_splits)

lemma save_unfold:
  "save e self w =
     (case write_channel_icon e self w of
        (Inl error, w1) \<Rightarrow>
          (case write_desktop_file e self None
                  (logger (Warning ''Error writing icon file for channel %s: %s''
                             [Str (py_str (channel_id self)), Exc error]) w1) of
             (Inl error2, w2) \<Rightarrow>
               (Inr (),
                logger (Warning ''Error writing desktop file for channel %s: %s''
                          [Str (py_str (channel_id self)), Exc error2]) w2)
           | (Inr u, w2) \<Rightarrow> (Inr (), w2))
      | (Inr icon_name, w1) \<Rightarrow>
          (case write_desktop_file e self icon_name w1 of
             (Inl error2, w2) \<Rightarrow>
               (Inr (),
                logger (Warning ''Error writing desktop file for channel %s: %s''
                          [Str (py_str (channel_id self)), Exc error2]) w2)
           | (Inr u, w2) \<Rightarrow> (Inr (), w2)))"
  by (simp add: save_def split: prod.splits sum.splits)

lemma save_returns: "fst (save e self w) = Inr ()"
  by (simp add: save_unfold split: prod.splits sum.splits)


lemmas ex_eval = ex_env_def ex_world_def ex_channel_def LAUNCHER_PREFIX_def
  applications_dir_def icon_theme_dir_def get_icon_file_path_def path_join_def
  desktop_entry_items_def LAUNCHER_CATEGORIES_def FORMAT_VERSION_def
  invalid_interpolation_def parser_set_def write_file_def lookup_def
  channel_icon_def ChannelIcon_def DATA_URI_PATTERN_match_def is_mimetype_char_def
  is_word_char_def file_extension_def Let_def


lemma basename_path_join:
  assumes "b \<noteq> []" and "CHR ''/'' \<notin> set b"
  shows "basename (path_join a b) = b"
proof -
  have all: "\<forall>c \<in> set (rev b). c \<noteq> CHR ''/''"
    using assms by auto
  have hd: "hd b \<noteq> CHR ''/''"
    using assms by (cases b) auto
  have tw0: "takeWhile (\<lambda>c. c \<noteq> CHR ''/'') (rev b) = rev b"
    using all by (simp add: takeWhile_eq_all_conv)
  have tw: "takeWhile (\<lambda>c. c \<noteq> CHR ''/'') (rev b @ CHR ''/'' # r) = rev b" for r
    using all by (simp add: takeWhile_tail takeWhile_eq_all_conv)
  show ?thesis
  proof (cases "a = []")
    case True
    then show ?thesis
      using hd by (simp add: path_join_def basename_def tw0)
  next
    case False
    then obtain a' x where a: "a = a' @ [x]" by (metis rev_exhaust)
    show ?thesis
    proof (cases "x = CHR ''/''")
      case True
      then show ?thesis using hd by (simp add: path_join_def basename_def a tw)
    next
      case False
      then show ?thesis using hd by (simp add: path_join_def basename_def a tw)
    qed
  qed
qed

text \<open>
  C10. Whenever \<^verbatim>\<open>write_channel_icon\<close> returns an icon name, that name is the prefix
  followed by the channel id, with no extension; the icon file is written under the
  bytes of the image at the derived path, whose file name is the icon name followed
  by \<^verbatim>\<open>.png\<close> (for an id without a slash); and when the entry is then written,
  \<^verbatim>\<open>save\<close> stores the bare icon name under the key Icon and leaves the icon file
  as it is. So the value of the key is never the name of the icon file.
\<close>

theorem icon_key_is_bare_name:
  assumes "write_channel_icon e (FromDatabase cm) w = (Inr (Some n), w1)"
  shows "n = LAUNCHER_PREFIX @ cm_id cm
       \<and> n \<noteq> n @ file_extension
       \<and> (CHR ''/'' \<notin> set (cm_id cm) \<longrightarrow>
            basename (get_icon_file_path e (n @ file_extension)) = n @ ''.png'')
       \<and> (\<exists>bytes.
            lookup w1 (get_icon_file_path e (n @ file_extension)) = Some bytes
            \<and> (\<forall>w2. write_desktop_file e (FromDatabase cm) (Some n) w1 = (Inr (), w2) \<longrightarrow>
                  save e (FromDatabase cm) w = (Inr (), w2)
                  \<and> lookup w2 (desktop_file_path e (FromDatabase cm))
                      = Some (parser_write (desktop_entry_items cm None @ [(''Icon'', n)]))
                  \<and> lookup w2 (get_icon_file_path e (n @ file_extension)) = Some bytes))"
proof -
  have n: "n = LAUNCHER_PREFIX @ cm_id cm"
    using assms by (rule write_channel_icon_Some(1))
  obtain bytes where bytes: "lookup w1 (get_icon_file_path e (n @ ''.png'')) = Some bytes"
    using write_channel_icon_Some(2) [OF assms] by blast
  have ne: "n \<noteq> []" by (simp add: n LAUNCHER_PREFIX_def)
  have base: "basename (get_icon_file_path e (n @ file_extension)) = n @ ''.png''"
    if "CHR ''/'' \<notin> set (cm_id cm)"
    using that
    by (simp add: get_icon_file_path_def file_extension_def basename_path_join n
          LAUNCHER_PREFIX_def)
  have entry: "save e (FromDatabase cm) w = (Inr (), w2)
       \<and> lookup w2 (desktop_file_path e (FromDatabase cm))
           = Some (parser_write (desktop_entry_items cm None @ [(''Icon'', n)]))
       \<and> lookup w2 (get_icon_file_path e (n @ file_extension)) = Some bytes"
    if w2: "write_desktop_file e (FromDatabase cm) (Some n) w1 = (Inr (), w2)" for w2
  proof -
    have s: "save e (FromDatabase cm) w = (Inr (), w2)"
      by (simp only: save_unfold assms w2 prod.case sum.case)
    from w2 have wf:
      "write_file (desktop_file_path e (FromDatabase cm))
         (parser_write (desktop_entry_items cm (Some n))) w1 = (Inr (), w2)"
      unfolding write_desktop_file_FromDatabase by (simp split: if_splits)
    have items: "desktop_entry_items cm (Some n) = desktop_entry_items cm None @ [(''Icon'', n)]"
      using ne by (simp add: desktop_entry_items_def)
    have l1: "lookup w2 (desktop_file_path e (FromDatabase cm))
                = Some (parser_write (desktop_entry_items cm None @ [(''Icon'', n)]))"
      using lookup_write_file [OF wf] by (simp add: items)
    have l2: "lookup w2 (get_icon_file_path e (n @ file_extension)) = Some bytes"
      using lookup_write_file [OF wf, of "get_icon_file_path e (n @ ''.png'')"] bytes
        desktop_path_not_icon_path [of e cm n]
      by (simp add: file_extension_def)
    from s l1 l2 show ?thesis by blast
  qed
  from n base bytes entry show ?thesis
    by (auto simp: file_extension_def)
qed

theorem icon_key_is_bare_name_witness:
  "fst (write_channel_icon ex_env (FromDatabase (ex_channel ''3'')) (ex_world []))
     = Inr (Some ''org.learningequality.Kolibri.Channel.c1'')
   \<and> CHR ''/'' \<notin> set (cm_id (ex_channel ''3''))
   \<and> basename (get_icon_file_path ex_env (''org.learningequality.Kolibri.Channel.c1'' @ file_extension))
       = ''org.learningequality.Kolibri.Channel.c1.png''
   \<and> lookup (snd (save ex_env (FromDatabase (ex_channel ''3'')) (ex_world [])))
        ''/share/icons/hicolor/256x256/apps/org.learningequality.Kolibri.Channel.c1.png''
       = Some ''PNG''
   \<and> lookup (snd (save ex_env (FromDatabase (ex_channel ''3'')) (ex_world [])))
        ''/share/applications/org.learningequality.Kolibri.Channel.c1.desktop''
       = Some (parser_write (desktop_entry_items (ex_channel ''3'') None
                 @ [(''Icon'', ''org.learningequality.Kolibri.Channel.c1'')]))"
proof -
  let ?l = "FromDatabase (ex_channel ''3'')"
  let ?n = "''org.learningequality.Kolibri.Channel.c1''"
  let ?ip = "get_icon_file_path ex_env (?n @ file_extension)"
  define w1 where "w1 = snd (write_channel_icon ex_env ?l (ex_world []))"
  have h: "write_channel_icon ex_env ?l (ex_world []) = (Inr (Some ?n), w1)"
    unfolding w1_def by (simp add: ex_eval)
  have ic: "lookup w1 ?ip = Some ''PNG''"
    unfolding w1_def by (simp add: ex_eval)
  have slash: "CHR ''/'' \<notin> set (cm_id (ex_channel ''3''))"
    by (simp add: ex_channel_def)
  define w2 where "w2 = snd (write_desktop_file ex_env ?l (Some ?n) w1)"
  have d: "write_desktop_file ex_env ?l (Some ?n) w1 = (Inr (), w2)"
    unfolding w2_def w1_def by (simp add: ex_eval)
  note t = icon_key_is_bare_name [OF h]
  from t slash have b: "basename ?ip = ?n @ ''.png''"
    by blast
  from t obtain bytes where b1: "lookup w1 ?ip = Some bytes"
    and b2: "\<forall>w2. write_desktop_file ex_env ?l (Some ?n) w1 = (Inr (), w2) \<longrightarrow>
                  save ex_env ?l (ex_world []) = (Inr (), w2)
                  \<and> lookup w2 (desktop_file_path ex_env ?l)
                      = Some (parser_write (desktop_entry_items (ex_channel ''3'') None
                                @ [(''Icon'', ?n)]))
                  \<and> lookup w2 ?ip = Some bytes"
    by blast
  from b1 ic have bytes: "bytes = ''PNG''" by simp
  from b2 d have s: "save ex_env ?l (ex_world []) = (Inr (), w2)"
    and e: "lookup w2 (desktop_file_path ex_env ?l)
              = Some (parser_write (desktop_entry_items (ex_channel ''3'') None @ [(''Icon'', ?n)]))"
    and i: "lookup w2 ?ip = Some bytes"
    by blast+
  have p1: "desktop_file_path ex_env ?l
            = ''/share/applications/org.learningequality.Kolibri.Channel.c1.desktop''"
    by (simp add: ex_eval)
  have p2: "?ip = ''/share/icons/hicolor/256x256/apps/org.learningequality.Kolibri.Channel.c1.png''"
    by (simp add: ex_eval)
  have g1: "fst (write_channel_icon ex_env ?l (ex_world [])) = Inr (Some ?n)"
    by (simp only: h fst_conv)
  have g3: "basename ?ip = ''org.learningequality.Kolibri.Channel.c1.png''"
    using b by simp
  have g4: "lookup (snd (save ex_env ?l (ex_world [])))
        ''/share/icons/hicolor/256x256/apps/org.learningequality.Kolibri.Channel.c1.png''
       = Some ''PNG''"
    using i by (simp only: s snd_conv p2 bytes)
  have g5: "lookup (snd (save ex_env ?l (ex_world [])))
        ''/share/applications/org.learningequality.Kolibri.Channel.c1.desktop''
       = Some (parser_write (desktop_entry_items (ex_channel ''3'') None @ [(''Icon'', ?n)]))"
    using e by (simp only: s snd_conv p1)
  from g1 slash g3 g4 g5 show ?thesis by blast
qed

section \<open>save\<close>

declare desktop_file_path.simps [simp del]

lemma write_desktop_file_ok:
  assumes "\<not> denied w (desktop_file_path e (FromDatabase cm))"
    and "\<forall>v \<in> snd ` set (desktop_entry_items cm icon_name). \<not> invalid_interpolation v"
  shows "write_desktop_file e (FromDatabase cm) icon_name w =
           (Inr (), w\<lparr>files := AList.update (desktop_file_path e (FromDatabase cm))
                                 (parser_write (desktop_entry_items cm icon_name)) (files w)\<rparr>)"
  using assms unfolding write_desktop_file_FromDatabase write_file_def by auto

text \<open>
  C5, as the code has it. For a thumbnail string that \<^verbatim>\<open>DATA_URI_PATTERN\<close> does not
  match, the construction of the icon raises \<^verbatim>\<open>ValueError\<close>; \<^verbatim>\<open>write_channel_icon\<close>
  returns no name and leaves every file untouched; \<^verbatim>\<open>save\<close> then attempts the entry
  with no icon name, and the items of that entry have no key Icon. The entry file is
  written, as the only change of the state, when it can be written and every value
  passes the check of \<^verbatim>\<open>set\<close>; when a value does not pass it, \<^verbatim>\<open>save\<close> writes no
  entry at all: it logs the \<^verbatim>\<open>ValueError\<close> and returns.
\<close>

theorem invalid_thumbnail_skips_icon:
  assumes "DATA_URI_PATTERN_match s = None" and "cm_thumbnail cm = Some s"
  shows "ChannelIcon (cm_thumbnail cm) = Inl ValueError
       \<and> write_channel_icon e (FromDatabase cm) w = (Inr None, w)
       \<and> save e (FromDatabase cm) w =
           (case write_desktop_file e (FromDatabase cm) None w of
              (Inl error, w') \<Rightarrow>
                (Inr (),
                 logger (Warning ''Error writing desktop file for channel %s: %s''
                           [Str (cm_id cm), Exc error]) w')
            | (Inr u, w') \<Rightarrow> (Inr (), w'))
       \<and> (\<not> denied w (desktop_file_path e (FromDatabase cm))
            \<and> (\<forall>v \<in> snd ` set (desktop_entry_items cm None). \<not> invalid_interpolation v) \<longrightarrow>
          save e (FromDatabase cm) w =
            (Inr (), w\<lparr>files := AList.update (desktop_file_path e (FromDatabase cm))
                                  (parser_write (desktop_entry_items cm None)) (files w)\<rparr>))
       \<and> ((\<exists>v \<in> snd ` set (desktop_entry_items cm None). invalid_interpolation v) \<longrightarrow>
          save e (FromDatabase cm) w =
            (Inr (),
             logger (Warning ''Error writing desktop file for channel %s: %s''
                       [Str (cm_id cm), Exc ValueError]) w))
       \<and> ''Icon'' \<notin> fst ` set (desktop_entry_items cm None)"
proof -
  have ci: "ChannelIcon (cm_thumbnail cm) = Inl ValueError"
    using assms by (simp add: ChannelIcon_def)
  then have wi: "write_channel_icon e (FromDatabase cm) w = (Inr None, w)"
    by (simp add: channel_icon_def)
  have sv: "save e (FromDatabase cm) w =
           (case write_desktop_file e (FromDatabase cm) None w of
              (Inl error, w') \<Rightarrow>
                (Inr (),
                 logger (Warning ''Error writing desktop file for channel %s: %s''
                           [Str (cm_id cm), Exc error]) w')
            | (Inr u, w') \<Rightarrow> (Inr (), w'))"
    by (simp only: save_unfold wi prod.case sum.case channel_id.simps py_str_def option.case)
  have ok: "save e (FromDatabase cm) w =
            (Inr (), w\<lparr>files := AList.update (desktop_file_path e (FromDatabase cm))
                                  (parser_write (desktop_entry_items cm None)) (files w)\<rparr>)"
    if "\<not> denied w (desktop_file_path e (FromDatabase cm))"
      and "\<forall>v \<in> snd ` set (desktop_entry_items cm None). \<not> invalid_interpolation v"
    by (simp only: sv write_desktop_file_ok [OF that] prod.case sum.case)
  have bad: "save e (FromDatabase cm) w =
            (Inr (),
             logger (Warning ''Error writing desktop file for channel %s: %s''
                       [Str (cm_id cm), Exc ValueError]) w)"
    if "\<exists>v \<in> snd ` set (desktop_entry_items cm None). invalid_interpolation v"
  proof -
    from that have "write_desktop_file e (FromDatabase cm) None w = (Inl ValueError, w)"
      by (simp only: write_desktop_file_FromDatabase if_True)
    then show ?thesis by (simp only: sv prod.case sum.case)
  qed
  have no: "''Icon'' \<notin> fst ` set (desktop_entry_items cm None)"
    by (simp add: desktop_entry_items_def)
  from ci wi sv ok bad no show ?thesis by blast
qed

text \<open>
  C6. \<^verbatim>\<open>save\<close> returns for every launcher and raises nothing. When the icon write
  raises, the error is logged and the entry is written with no icon name; for a
  launcher from the database whose entry file can be written this leaves the entry
  without the key Icon on disk and the warning as the last record of the log. When
  the entry write raises, the error is logged and \<^verbatim>\<open>save\<close> returns as well.
\<close>

theorem save_never_raises:
  "fst (save e self w) = Inr ()
   \<and> (\<forall>error w1. write_channel_icon e self w = (Inl error, w1) \<longrightarrow>
        save e self w =
          (case write_desktop_file e self None
                  (logger (Warning ''Error writing icon file for channel %s: %s''
                             [Str (py_str (channel_id self)), Exc error]) w1) of
             (Inl error2, w2) \<Rightarrow>
               (Inr (),
                logger (Warning ''Error writing desktop file for channel %s: %s''
                          [Str (py_str (channel_id self)), Exc error2]) w2)
           | (Inr u, w2) \<Rightarrow> (Inr (), w2)))
   \<and> (\<forall>icon_name w1 error w2.
        write_channel_icon e self w = (Inr icon_name, w1)
        \<and> write_desktop_file e self icon_name w1 = (Inl error, w2) \<longrightarrow>
        save e self w =
          (Inr (),
           logger (Warning ''Error writing desktop file for channel %s: %s''
                     [Str (py_str (channel_id self)), Exc error]) w2))
   \<and> (\<forall>cm error w1.
        self = FromDatabase cm \<and> write_channel_icon e self w = (Inl error, w1)
        \<and> \<not> denied w1 (desktop_file_path e self)
        \<and> (\<forall>v \<in> snd ` set (desktop_entry_items cm None). \<not> invalid_interpolation v) \<longrightarrow>
        lookup (snd (save e self w)) (desktop_file_path e self)
          = Some (parser_write (desktop_entry_items cm None))
        \<and> log (snd (save e self w))
          = log w1 @ [Warning ''Error writing icon file for channel %s: %s''
                        [Str (cm_id cm), Exc error]])"
proof -
  have c1: "fst (save e self w) = Inr ()" by (rule save_returns)
  have c2: "save e self w =
          (case write_desktop_file e self None
                  (logger (Warning ''Error writing icon file for channel %s: %s''
                             [Str (py_str (channel_id self)), Exc error]) w1) of
             (Inl error2, w2) \<Rightarrow>
               (Inr (),
                logger (Warning ''Error writing desktop file for channel %s: %s''
                          [Str (py_str (channel_id self)), Exc error2]) w2)
           | (Inr u, w2) \<Rightarrow> (Inr (), w2))"
    if "write_channel_icon e self w = (Inl error, w1)" for error w1
    using that by (simp only: save_unfold prod.case sum.case)
  have c3: "save e self w =
          (Inr (),
           logger (Warning ''Error writing desktop file for channel %s: %s''
                     [Str (py_str (channel_id self)), Exc error]) w2)"
    if "write_channel_icon e self w = (Inr icon_name, w1)
        \<and> write_desktop_file e self icon_name w1 = (Inl error, w2)" for icon_name w1 error w2
    using that by (simp only: save_unfold prod.case sum.case)
  have c4: "lookup (snd (save e self w)) (desktop_file_path e self)
          = Some (parser_write (desktop_entry_items cm None))
        \<and> log (snd (save e self w))
          = log w1 @ [Warning ''Error writing icon file for channel %s: %s''
                        [Str (cm_id cm), Exc error]]"
    if a: "self = FromDatabase cm \<and> write_channel_icon e self w = (Inl error, w1)
        \<and> \<not> denied w1 (desktop_file_path e self)
        \<and> (\<forall>v \<in> snd ` set (desktop_entry_items cm None). \<not> invalid_interpolation v)"
    for cm error w1
  proof -
    let ?w = "logger (Warning ''Error writing icon file for channel %s: %s''
                        [Str (py_str (channel_id self)), Exc error]) w1"
    from a have self: "self = FromDatabase cm"
      and wi: "write_channel_icon e self w = (Inl error, w1)"
      and nd: "\<not> denied w1 (desktop_file_path e (FromDatabase cm))"
      and valid: "\<forall>v \<in> snd ` set (desktop_entry_items cm None). \<not> invalid_interpolation v"
      by blast+
    from nd have "\<not> denied ?w (desktop_file_path e (FromDatabase cm))"
      by (simp add: logger_def)
    then have wd: "write_desktop_file e (FromDatabase cm) None ?w =
        (Inr (), ?w\<lparr>files := AList.update (desktop_file_path e (FromDatabase cm))
                                   (parser_write (desktop_entry_items cm None)) (files ?w)\<rparr>)"
      using valid by (rule write_desktop_file_ok)
    have s: "save e self w =
        (Inr (), ?w\<lparr>files := AList.update (desktop_file_path e (FromDatabase cm))
                                   (parser_write (desktop_entry_items cm None)) (files ?w)\<rparr>)"
      using wd wi unfolding self by (simp only: save_unfold prod.case sum.case)
    show ?thesis
      unfolding self
      by (simp add: s [unfolded self] lookup_def update_conv' logger_def py_str_def)
  qed
  from c1 c2 c3 c4 show ?thesis by blast
qed

theorem invalid_thumbnail_skips_icon_witness:
  "DATA_URI_PATTERN_match ''image/png;base64,AAAA'' = None
   \<and> DATA_URI_PATTERN_match ''data:image/png,AAAA'' = None
   \<and> ChannelIcon (Some ''image/png;base64,AAAA'') = Inl ValueError
   \<and> save ex_env (FromDatabase ((ex_channel ''3'')\<lparr>cm_thumbnail := Some ''image/png;base64,AAAA''\<rparr>))
        (ex_world [])
       = (Inr (),
          ex_world [(''/share/applications/org.learningequality.Kolibri.Channel.c1.desktop'',
                     parser_write (desktop_entry_items (ex_channel ''3'') None))])
   \<and> save ex_env (FromDatabase ((ex_channel ''3'')\<lparr>cm_thumbnail := Some ''data:image/png,AAAA''\<rparr>))
        (ex_world [])
       = (Inr (),
          ex_world [(''/share/applications/org.learningequality.Kolibri.Channel.c1.desktop'',
                     parser_write (desktop_entry_items (ex_channel ''3'') None))])"
proof -
  have m1: "DATA_URI_PATTERN_match ''image/png;base64,AAAA'' = None"
    by (simp add: DATA_URI_PATTERN_match_def)
  have m2: "DATA_URI_PATTERN_match ''data:image/png,AAAA'' = None"
    by (simp add: DATA_URI_PATTERN_match_def is_mimetype_char_def is_word_char_def)
  have r: "ChannelIcon (Some t) = Inl ValueError
       \<and> save ex_env (FromDatabase ((ex_channel ''3'')\<lparr>cm_thumbnail := Some t\<rparr>)) (ex_world [])
       = (Inr (),
          ex_world [(''/share/applications/org.learningequality.Kolibri.Channel.c1.desktop'',
                     parser_write (desktop_entry_items (ex_channel ''3'') None))])"
    if m: "DATA_URI_PATTERN_match t = None" for t
  proof -
    let ?cm = "(ex_channel ''3'')\<lparr>cm_thumbnail := Some t\<rparr>"
    have th: "cm_thumbnail ?cm = Some t" by simp
    have nd: "\<not> denied (ex_world []) (desktop_file_path ex_env (FromDatabase ?cm))"
      by (simp add: ex_world_def)
    have valid: "\<forall>v \<in> snd ` set (desktop_entry_items ?cm None). \<not> invalid_interpolation v"
      by (simp add: ex_eval)
    have items: "desktop_entry_items ?cm None = desktop_entry_items (ex_channel ''3'') None"
      by (simp add: desktop_entry_items_def ex_channel_def)
    have path: "desktop_file_path ex_env (FromDatabase ?cm)
                = ''/share/applications/org.learningequality.Kolibri.Channel.c1.desktop''"
      by (simp add: ex_eval desktop_file_path.simps)
    note t = invalid_thumbnail_skips_icon [OF m th, of ex_env "ex_world []"]
    from t have "ChannelIcon (Some t) = Inl ValueError" by simp
    moreover from t nd valid
    have "save ex_env (FromDatabase ?cm) (ex_world []) =
            (Inr (), (ex_world [])\<lparr>files := AList.update (desktop_file_path ex_env (FromDatabase ?cm))
                                  (parser_write (desktop_entry_items ?cm None)) (files (ex_world []))\<rparr>)"
      by blast
    then have "save ex_env (FromDatabase ?cm) (ex_world []) =
       (Inr (),
          ex_world [(''/share/applications/org.learningequality.Kolibri.Channel.c1.desktop'',
                     parser_write (desktop_entry_items (ex_channel ''3'') None))])"
      by (simp add: items path ex_world_def)
    ultimately show ?thesis by blast
  qed
  from m1 m2 r [OF m1] r [OF m2] show ?thesis by blast
qed

text \<open>
  C5 as the claim states it fails: for a channel named \<^verbatim>\<open>100%\<close> with a thumbnail
  that lacks the prefix \<^verbatim>\<open>data:\<close>, \<^verbatim>\<open>save\<close> writes no entry file; it logs the error
  of the entry and leaves the files as they were.
\<close>

theorem malformed_thumbnail_entry_not_written_counterexample:
  "DATA_URI_PATTERN_match ''image/png;base64,AAAA'' = None
   \<and> save ex_env
        (FromDatabase ((ex_channel ''3'')\<lparr>cm_name := ''100%'',
                                           cm_thumbnail := Some ''image/png;base64,AAAA''\<rparr>))
        (ex_world [])
       = (Inr (),
          (ex_world [])\<lparr>log := [Warning ''Error writing desktop file for channel %s: %s''
                                   [Str ''c1'', Exc ValueError]]\<rparr>)
   \<and> files ((ex_world [])\<lparr>log := [Warning ''Error writing desktop file for channel %s: %s''
                                   [Str ''c1'', Exc ValueError]]\<rparr>) = []"
  by (simp add: ex_eval save_unfold logger_def py_str_def)

theorem save_never_raises_witness:
  "write_channel_icon (ex_env\<lparr>icon_image_bytes := (\<lambda>data_b64. Inl OSError)\<rparr>)
       (FromDatabase (ex_channel ''3'')) (ex_world [])
     = (Inl OSError,
        ex_world [(''/share/icons/hicolor/256x256/apps/org.learningequality.Kolibri.Channel.c1.png'', [])])
   \<and> fst (save (ex_env\<lparr>icon_image_bytes := (\<lambda>data_b64. Inl OSError)\<rparr>)
             (FromDatabase (ex_channel ''3'')) (ex_world [])) = Inr ()
   \<and> lookup (snd (save (ex_env\<lparr>icon_image_bytes := (\<lambda>data_b64. Inl OSError)\<rparr>)
                    (FromDatabase (ex_channel ''3'')) (ex_world [])))
        (desktop_file_path (ex_env\<lparr>icon_image_bytes := (\<lambda>data_b64. Inl OSError)\<rparr>)
           (FromDatabase (ex_channel ''3'')))
       = Some (parser_write (desktop_entry_items (ex_channel ''3'') None))
   \<and> log (snd (save (ex_env\<lparr>icon_image_bytes := (\<lambda>data_b64. Inl OSError)\<rparr>)
                 (FromDatabase (ex_channel ''3'')) (ex_world [])))
       = [Warning ''Error writing icon file for channel %s: %s'' [Str ''c1'', Exc OSError]]"
proof -
  let ?e = "ex_env\<lparr>icon_image_bytes := (\<lambda>data_b64. Inl OSError)\<rparr>"
  let ?l = "FromDatabase (ex_channel ''3'')"
  let ?w1 = "ex_world [(''/share/icons/hicolor/256x256/apps/org.learningequality.Kolibri.Channel.c1.png'', [])]"
  have wi: "write_channel_icon ?e ?l (ex_world []) = (Inl OSError, ?w1)"
    by (simp add: ex_eval)
  have nd: "\<not> denied ?w1 (desktop_file_path ?e ?l)"
    by (simp add: ex_world_def)
  have valid: "\<forall>v \<in> snd ` set (desktop_entry_items (ex_channel ''3'') None).
                 \<not> invalid_interpolation v"
    by (simp add: ex_eval)
  note t = save_never_raises [of ?e ?l "ex_world []"]
  from t have g1: "fst (save ?e ?l (ex_world [])) = Inr ()" by blast
  from t wi nd valid
  have g2: "lookup (snd (save ?e ?l (ex_world []))) (desktop_file_path ?e ?l)
          = Some (parser_write (desktop_entry_items (ex_channel ''3'') None))
        \<and> log (snd (save ?e ?l (ex_world [])))
          = log ?w1 @ [Warning ''Error writing icon file for channel %s: %s''
                        [Str (cm_id (ex_channel ''3'')), Exc OSError]]"
    by blast
  have l: "log ?w1 = []" and i: "cm_id (ex_channel ''3'') = ''c1''"
    by (simp_all add: ex_world_def ex_channel_def)
  from wi g1 g2 show ?thesis by (simp add: l i)
qed

section \<open>Loading from disk\<close>



lemma load_entries_returns:
  "\<forall>n \<in> set names. \<forall>text err.
      lookup w (path_join d n) = Some text \<longrightarrow> read_desktop_entry e text \<noteq> Inl err \<Longrightarrow>
   \<exists>ls. load_entries e w d names = Inr ls"
proof (induction names)
  case Nil
  then show ?case by simp
next
  case (Cons n names)
  then obtain ls where ls: "load_entries e w d names = Inr ls" by auto
  show ?case
  proof (cases "lookup w (path_join d n)")
    case None
    then show ?thesis using ls by simp
  next
    case (Some content)
    with Cons.prems have "\<forall>err. read_desktop_entry e content \<noteq> Inl err" by simp
    then obtain r where "read_desktop_entry e content = Inr r"
      by (cases "read_desktop_entry e content") auto
    then show ?thesis using ls Some by (cases r) simp_all
  qed
qed



lemmas load_eval = FromDisk_load_all_def isdir_def listdir_def entry_name_def
  List.map_filter_def ex_read_def ex_entry_text_def parser_write_def item_line_def



section \<open>The reconciliation pass\<close>

lemma apply_actions_append:
  "apply_actions e (as @ bs) w =
     (case apply_actions e as w of
        (Inl err, w') \<Rightarrow> (Inl err, w')
      | (Inr u, w') \<Rightarrow> apply_actions e bs w')"
  by (induction as arbitrary: w) (auto split: prod.splits sum.splits)

lemma remove_loop_actions:
  "remove_loop e db disk c w =
     (case apply_actions e
             (map Delete (filter (\<lambda>d. \<not> (\<exists>s \<in> set db. is_same_channel d s)) disk)) w of
        (Inl err, w') \<Rightarrow> (Inl err, w')
      | (Inr u, w') \<Rightarrow>
          (Inr (c \<or> filter (\<lambda>d. \<not> (\<exists>s \<in> set db. is_same_channel d s)) disk \<noteq> []), w'))"
  by (induction disk arbitrary: c w) (auto simp: list_ex_iff split: prod.splits sum.splits)

lemma any_compare_spec:
  assumes "\<forall>d \<in> set disk. is_same_channel l d \<longrightarrow> compareVersion e l d \<noteq> Incomparable"
  shows "any_compare e l disk =
           Inr (\<exists>d \<in> set disk. is_same_channel l d \<and> compareVersion e l d \<noteq> Equal)"
  using assms
proof (induction disk)
  case Nil
  then show ?case by simp
next
  case (Cons d disk)
  then have ih: "any_compare e l disk =
           Inr (\<exists>d \<in> set disk. is_same_channel l d \<and> compareVersion e l d \<noteq> Equal)"
    by simp
  show ?case
  proof (cases "is_same_channel l d")
    case False
    then show ?thesis by (simp add: compare_other_channel ih)
  next
    case True
    with Cons.prems have ni: "compareVersion e l d \<noteq> Incomparable" by simp
    show ?thesis
      using compare_by_order [OF True, of e] ni True
      by (cases "compareVersion e l d") (auto simp: ih)
  qed
qed

lemma save_loop_actions:
  assumes "force \<or> (\<forall>l \<in> set ls. \<forall>d \<in> set disk.
             is_same_channel l d \<longrightarrow> compareVersion e l d \<noteq> Incomparable)"
  shows "save_loop e force disk ls c w =
     (case apply_actions e (concat (map (spec_source_actions e force disk) ls)) w of
        (Inl err, w') \<Rightarrow> (Inl err, w')
      | (Inr u, w') \<Rightarrow>
          (Inr (c \<or> concat (map (spec_source_actions e force disk) ls) \<noteq> []), w'))"
  using assms
proof (induction ls arbitrary: c w)
  case Nil
  then show ?case by simp
next
  case (Cons l ls)
  from Cons.prems have rest: "force \<or> (\<forall>l \<in> set ls. \<forall>d \<in> set disk.
             is_same_channel l d \<longrightarrow> compareVersion e l d \<noteq> Incomparable)"
    by auto
  note ih = Cons.IH [OF rest]
  show ?case
  proof (cases "\<exists>d \<in> set disk. is_same_channel l d")
    case False
    then have a: "spec_source_actions e force disk l = [Create l]"
      by (simp add: spec_source_actions_def)
    from False show ?thesis
      by (simp add: a ih list_ex_iff split: prod.splits sum.splits)
  next
    case True
    have chk: "(if force then Inr True else any_compare e l disk) =
               Inr (force \<or> (\<exists>d \<in> set disk. is_same_channel l d \<and> compareVersion e l d \<noteq> Equal))"
    proof (cases force)
      case True
      then show ?thesis by simp
    next
      case False
      with Cons.prems have "\<forall>d \<in> set disk. is_same_channel l d \<longrightarrow> compareVersion e l d \<noteq> Incomparable"
        by auto
      then show ?thesis using False by (simp add: any_compare_spec)
    qed
    note ex = \<open>\<exists>d \<in> set disk. is_same_channel l d\<close>
    show ?thesis
    proof (cases "force \<or> (\<exists>d \<in> set disk. is_same_channel l d \<and> compareVersion e l d \<noteq> Equal)")
      case True
      with ex have a: "spec_source_actions e force disk l = [Update l]"
        by (auto simp: spec_source_actions_def)
      from True have chk': "(if force then Inr True else any_compare e l disk) = Inr True"
        by (simp only: chk)
      from ex show ?thesis
        by (simp add: a ih chk' list_ex_iff split: prod.splits sum.splits)
    next
      case False
      with ex have a: "spec_source_actions e force disk l = []"
        by (auto simp: spec_source_actions_def)
      from False have chk': "(if force then Inr True else any_compare e l disk) = Inr False"
        by (simp only: chk)
      have cc: "concat (map (spec_source_actions e force disk) (l # ls))
                = concat (map (spec_source_actions e force disk) ls)"
        by (simp add: a)
      from ex show ?thesis
        unfolding cc by (simp add: ih chk' list_ex_iff)
    qed
  qed
qed

lemma reconcile_actions:
  assumes "force \<or> (\<forall>l \<in> set db. \<forall>d \<in> set disk.
             is_same_channel l d \<longrightarrow> compareVersion e l d \<noteq> Incomparable)"
  shows "reconcile e force db disk w =
     (case apply_actions e (spec_diff e force db disk) w of
        (Inl err, w') \<Rightarrow> (Inl err, w')
      | (Inr u, w') \<Rightarrow> (Inr (spec_diff e force db disk \<noteq> []), w'))"
  unfolding reconcile_def spec_diff_def remove_loop_actions save_loop_actions [OF assms]
    apply_actions_append
  by (auto split: prod.splits sum.splits)

lemma apply_actions_saves:
  "\<forall>a \<in> set as. \<forall>l. a \<noteq> Delete l \<Longrightarrow> \<exists>w'. apply_actions e as w = (Inr (), w')"
proof (induction as arbitrary: w)
  case Nil
  then show ?case by simp
next
  case (Cons a as)
  from Cons.prems have nd: "\<forall>l. a \<noteq> Delete l" and rest: "\<forall>a \<in> set as. \<forall>l. a \<noteq> Delete l"
    by simp_all
  obtain r w1 where s: "apply_action e a w = (r, w1)" by (cases "apply_action e a w")
  have "fst (apply_action e a w) = Inr ()"
    using nd by (cases a) (simp_all add: save_returns)
  with s have r: "r = Inr ()" by simp
  from Cons.IH [OF rest, of w1] obtain w' where "apply_actions e as w1 = (Inr (), w')" by blast
  with s r show ?case by simp
qed

lemma spec_source_actions_no_delete:
  "a \<in> set (concat (map (spec_source_actions e force disk) ls)) \<Longrightarrow> a \<noteq> Delete l"
  by (auto simp: spec_source_actions_def split: if_splits)

lemma apply_deletes_cases:
  "(\<exists>w'. apply_actions e (map Delete ds) w = (Inr (), w'))
   \<or> (\<exists>done d rest w1 err w'.
         ds = done @ d # rest
         \<and> apply_actions e (map Delete done) w = (Inr (), w1)
         \<and> apply_action e (Delete d) w1 = (Inl err, w')
         \<and> apply_actions e (map Delete ds) w = (Inl err, w'))"
proof (induction ds arbitrary: w)
  case Nil
  then show ?case by simp
next
  case (Cons d ds)
  obtain r w1 where s: "apply_action e (Delete d) w = (r, w1)"
    by (cases "apply_action e (Delete d) w")
  show ?case
  proof (cases r)
    case (Inl err)
    have "d # ds = [] @ d # ds" by simp
    moreover have "apply_actions e (map Delete []) w = (Inr (), w)" by simp
    moreover have "apply_actions e (map Delete (d # ds)) w = (Inl err, w1)"
      using s Inl by simp
    ultimately show ?thesis using s Inl by blast
  next
    case (Inr u)
    have step: "apply_actions e (map Delete (d # xs)) w = apply_actions e (map Delete xs) w1" for xs
      using s Inr by simp
    from Cons.IH [of w1] show ?thesis
    proof
      assume "\<exists>w'. apply_actions e (map Delete ds) w1 = (Inr (), w')"
      then show ?thesis by (simp only: step) blast
    next
      assume "\<exists>done d' rest w2 err w'.
         ds = done @ d' # rest
         \<and> apply_actions e (map Delete done) w1 = (Inr (), w2)
         \<and> apply_action e (Delete d') w2 = (Inl err, w')
         \<and> apply_actions e (map Delete ds) w1 = (Inl err, w')"
      then obtain dn d' rest w2 err w' where
        a: "ds = dn @ d' # rest"
        and b: "apply_actions e (map Delete dn) w1 = (Inr (), w2)"
        and c: "apply_action e (Delete d') w2 = (Inl err, w')"
        and f: "apply_actions e (map Delete ds) w1 = (Inl err, w')"
        by blast
      have "d # ds = (d # dn) @ d' # rest" using a by simp
      moreover have "apply_actions e (map Delete (d # dn)) w = (Inr (), w2)"
        using b by (simp only: step)
      moreover have "apply_actions e (map Delete (d # ds)) w = (Inl err, w')"
        using f by (simp only: step)
      ultimately show ?thesis using c by blast
    qed
  qed
qed

text \<open>
  C1, as the code has it. When the update is forced, or when the versions of every
  pair of a source launcher and a disk launcher of the same channel both parse, the
  two loops of \<^verbatim>\<open>update_channel_launchers\<close> carry out the specification's diff in
  its order, up to the first removal that raises. When the loops return, they have
  carried out the whole diff: they have deleted every disk launcher without a match
  in the source list, created every source launcher without a match on disk,
  updated a matched source launcher if and only if the update is forced or its
  version does not compare equal to a match, and written nothing for a matched
  launcher whose versions compare equal; and the flag is set if and only if the diff
  is not empty. The loops return unless \<^verbatim>\<open>delete\<close> raises for a disk launcher without
  a match: then the removals before it have been made, and that error ends the pass.
\<close>

theorem reconcile_performs_spec_diff:
  assumes "forceUpdate \<or> (\<forall>l \<in> set sourceList. \<forall>d \<in> set diskList.
             is_same_channel l d \<longrightarrow> compareVersion e l d \<noteq> Incomparable)"
  shows "reconcile e forceUpdate sourceList diskList w =
           (case apply_actions e (spec_diff e forceUpdate sourceList diskList) w of
              (Inl err, w') \<Rightarrow> (Inl err, w')
            | (Inr u, w') \<Rightarrow> (Inr (spec_diff e forceUpdate sourceList diskList \<noteq> []), w'))
       \<and> (\<forall>changed w'. reconcile e forceUpdate sourceList diskList w = (Inr changed, w') \<longrightarrow>
             apply_actions e (spec_diff e forceUpdate sourceList diskList) w = (Inr (), w')
             \<and> changed = (spec_diff e forceUpdate sourceList diskList \<noteq> []))
       \<and> ((\<exists>changed w'. reconcile e forceUpdate sourceList diskList w = (Inr changed, w'))
          \<or> (\<exists>done d rest w1 err w'.
                filter (\<lambda>d. \<not> (\<exists>s \<in> set sourceList. is_same_channel d s)) diskList
                  = done @ d # rest
                \<and> apply_actions e (map Delete done) w = (Inr (), w1)
                \<and> delete e d (logger (Info ''Removing desktop launcher %s''
                                          [Str (desktop_file_name d)]) w1) = (Inl err, w')
                \<and> reconcile e forceUpdate sourceList diskList w = (Inl err, w')))"
proof -
  let ?U = "filter (\<lambda>d. \<not> (\<exists>s \<in> set sourceList. is_same_channel d s)) diskList"
  let ?S = "concat (map (spec_source_actions e forceUpdate diskList) sourceList)"
  let ?D = "spec_diff e forceUpdate sourceList diskList"
  have eq: "reconcile e forceUpdate sourceList diskList w =
           (case apply_actions e ?D w of
              (Inl err, w') \<Rightarrow> (Inl err, w')
            | (Inr u, w') \<Rightarrow> (Inr (?D \<noteq> []), w'))"
    using assms by (rule reconcile_actions)
  have ret: "apply_actions e ?D w = (Inr (), w') \<and> changed = (?D \<noteq> [])"
    if "reconcile e forceUpdate sourceList diskList w = (Inr changed, w')" for changed w'
    using that unfolding eq by (auto split: prod.splits sum.splits)
  have D: "?D = map Delete ?U @ ?S" by (simp add: spec_diff_def)
  have saves: "\<exists>w'. apply_actions e ?S w1 = (Inr (), w')" for w1
    using spec_source_actions_no_delete [of _ e forceUpdate diskList sourceList]
    by (intro apply_actions_saves) blast
  have alt: "(\<exists>changed w'. reconcile e forceUpdate sourceList diskList w = (Inr changed, w'))
          \<or> (\<exists>done d rest w1 err w'.
                ?U = done @ d # rest
                \<and> apply_actions e (map Delete done) w = (Inr (), w1)
                \<and> delete e d (logger (Info ''Removing desktop launcher %s''
                                          [Str (desktop_file_name d)]) w1) = (Inl err, w')
                \<and> reconcile e forceUpdate sourceList diskList w = (Inl err, w'))"
    using apply_deletes_cases [of e ?U w]
  proof
    assume "\<exists>w'. apply_actions e (map Delete ?U) w = (Inr (), w')"
    then obtain w1 where d: "apply_actions e (map Delete ?U) w = (Inr (), w1)" by blast
    from saves [of w1] obtain w' where s: "apply_actions e ?S w1 = (Inr (), w')" by blast
    have "apply_actions e ?D w = (Inr (), w')"
      unfolding D apply_actions_append using d s by simp
    then have "reconcile e forceUpdate sourceList diskList w = (Inr (?D \<noteq> []), w')"
      unfolding eq by simp
    then show ?thesis by blast
  next
    assume "\<exists>done d rest w1 err w'.
         ?U = done @ d # rest
         \<and> apply_actions e (map Delete done) w = (Inr (), w1)
         \<and> apply_action e (Delete d) w1 = (Inl err, w')
         \<and> apply_actions e (map Delete ?U) w = (Inl err, w')"
    then obtain dn d rest w1 err w' where
      a: "?U = dn @ d # rest"
      and b: "apply_actions e (map Delete dn) w = (Inr (), w1)"
      and c: "apply_action e (Delete d) w1 = (Inl err, w')"
      and f: "apply_actions e (map Delete ?U) w = (Inl err, w')"
      by blast
    have "apply_actions e ?D w = (Inl err, w')"
      unfolding D apply_actions_append using f by simp
    then have r: "reconcile e forceUpdate sourceList diskList w = (Inl err, w')"
      unfolding eq by simp
    from c have c': "delete e d (logger (Info ''Removing desktop launcher %s''
                                          [Str (desktop_file_name d)]) w1) = (Inl err, w')"
      by simp
    from a b c' r show ?thesis by blast
  qed
  from eq ret alt show ?thesis by blast
qed


lemmas cmp_eval = compareVersion_def compare_def parse_version_def is_same_channel_def
  ex_disk_def ex_channel_def ex_env_def py_int_simps FORMAT_VERSION_def

lemmas loop_eval = reconcile_def save_def delete_def delete_desktop_file_def os_remove_def
  try_remove_def isfile_def logger_def desktop_file_path.simps list_ex_iff py_str_def
  basename_def int_or_def

theorem reconcile_performs_spec_diff_witness:
  "is_same_channel (FromDatabase (ex_channel ''3''))
       (ex_disk ''/share/applications/a.desktop'' ''c1'' ''1~5'')
   \<and> compareVersion ex_env (FromDatabase (ex_channel ''3''))
       (ex_disk ''/share/applications/a.desktop'' ''c1'' ''1~5'') = Greater
   \<and> \<not> is_same_channel (FromDatabase (ex_channel ''3''))
       (ex_disk ''/share/applications/b.desktop'' ''c2'' ''1~5'')
   \<and> spec_diff ex_env False [FromDatabase (ex_channel ''3'')]
        [ex_disk ''/share/applications/a.desktop'' ''c1'' ''1~5'',
         ex_disk ''/share/applications/b.desktop'' ''c2'' ''1~5'']
       = [Delete (ex_disk ''/share/applications/b.desktop'' ''c2'' ''1~5''),
          Update (FromDatabase (ex_channel ''3''))]
   \<and> fst (reconcile ex_env False [FromDatabase (ex_channel ''3'')]
        [ex_disk ''/share/applications/a.desktop'' ''c1'' ''1~5'',
         ex_disk ''/share/applications/b.desktop'' ''c2'' ''1~5'']
        (ex_world [(''/share/applications/a.desktop'', ex_entry_text ''c1'' ''1~5''),
                   (''/share/applications/b.desktop'', ex_entry_text ''c2'' ''1~5'')]))
       = Inr True
   \<and> apply_actions ex_env
        [Delete (ex_disk ''/share/applications/b.desktop'' ''c2'' ''1~5''),
         Update (FromDatabase (ex_channel ''3''))]
        (ex_world [(''/share/applications/a.desktop'', ex_entry_text ''c1'' ''1~5''),
                   (''/share/applications/b.desktop'', ex_entry_text ''c2'' ''1~5'')])
       = (Inr (),
          snd (reconcile ex_env False [FromDatabase (ex_channel ''3'')]
                 [ex_disk ''/share/applications/a.desktop'' ''c1'' ''1~5'',
                  ex_disk ''/share/applications/b.desktop'' ''c2'' ''1~5'']
                 (ex_world [(''/share/applications/a.desktop'', ex_entry_text ''c1'' ''1~5''),
                            (''/share/applications/b.desktop'', ex_entry_text ''c2'' ''1~5'')])))
   \<and> map fst (files (snd (reconcile ex_env False [FromDatabase (ex_channel ''3'')]
                 [ex_disk ''/share/applications/a.desktop'' ''c1'' ''1~5'',
                  ex_disk ''/share/applications/b.desktop'' ''c2'' ''1~5'']
                 (ex_world [(''/share/applications/a.desktop'', ex_entry_text ''c1'' ''1~5''),
                            (''/share/applications/b.desktop'', ex_entry_text ''c2'' ''1~5'')]))))
       = [''/share/applications/a.desktop'',
          ''/share/icons/hicolor/256x256/apps/org.learningequality.Kolibri.Channel.c1.png'',
          ''/share/applications/org.learningequality.Kolibri.Channel.c1.desktop'']"
proof -
  let ?db = "[FromDatabase (ex_channel ''3'')]"
  let ?disk = "[ex_disk ''/share/applications/a.desktop'' ''c1'' ''1~5'',
                ex_disk ''/share/applications/b.desktop'' ''c2'' ''1~5'']"
  let ?w = "ex_world [(''/share/applications/a.desktop'', ex_entry_text ''c1'' ''1~5''),
                      (''/share/applications/b.desktop'', ex_entry_text ''c2'' ''1~5'')]"
  define w' where "w' = snd (reconcile ex_env False ?db ?disk ?w)"
  have h: "\<forall>l \<in> set ?db. \<forall>d \<in> set ?disk.
             is_same_channel l d \<longrightarrow> compareVersion ex_env l d \<noteq> Incomparable"
    by (simp add: cmp_eval)
  then have h': "False \<or> (\<forall>l \<in> set ?db. \<forall>d \<in> set ?disk.
             is_same_channel l d \<longrightarrow> compareVersion ex_env l d \<noteq> Incomparable)"
    by (rule disjI2)
  have d: "spec_diff ex_env False ?db ?disk
           = [Delete (ex_disk ''/share/applications/b.desktop'' ''c2'' ''1~5''),
              Update (FromDatabase (ex_channel ''3''))]"
    by (simp add: spec_diff_def spec_source_actions_def cmp_eval)
  have s1: "is_same_channel (FromDatabase (ex_channel ''3''))
       (ex_disk ''/share/applications/a.desktop'' ''c1'' ''1~5'')"
    by (simp add: cmp_eval)
  have s2: "compareVersion ex_env (FromDatabase (ex_channel ''3''))
       (ex_disk ''/share/applications/a.desktop'' ''c1'' ''1~5'') = Greater"
    by (simp add: cmp_eval)
  have s3: "\<not> is_same_channel (FromDatabase (ex_channel ''3''))
       (ex_disk ''/share/applications/b.desktop'' ''c2'' ''1~5'')"
    by (simp add: cmp_eval)
  have f: "fst (reconcile ex_env False ?db ?disk ?w) = Inr True"
    by (simp add: ex_eval loop_eval cmp_eval)
  then have r: "reconcile ex_env False ?db ?disk ?w = (Inr True, w')"
    unfolding w'_def by (metis prod.collapse)
  note t = reconcile_performs_spec_diff [OF h', of ?w]
  from t r have "apply_actions ex_env (spec_diff ex_env False ?db ?disk) ?w = (Inr (), w')"
    by blast
  then have a: "apply_actions ex_env
        [Delete (ex_disk ''/share/applications/b.desktop'' ''c2'' ''1~5''),
         Update (FromDatabase (ex_channel ''3''))] ?w = (Inr (), w')"
    by (simp only: d)
  have fl: "map fst (files (snd (reconcile ex_env False ?db ?disk ?w)))
       = [''/share/applications/a.desktop'',
          ''/share/icons/hicolor/256x256/apps/org.learningequality.Kolibri.Channel.c1.png'',
          ''/share/applications/org.learningequality.Kolibri.Channel.c1.desktop'']"
    by (simp add: ex_eval loop_eval cmp_eval)
  show ?thesis
    by (intro conjI) (rule s1, rule s2, rule s3, rule d, rule f, rule a [unfolded w'_def], rule fl)
qed

text \<open>
  C1 as the claim states it fails. With a version on disk that does not parse, the
  specification's diff updates the launcher, and the loops raise \<^verbatim>\<open>ValueError\<close>
  and write nothing. And with an entry file whose removal is refused, the diff
  deletes two launchers and creates one, and the loops raise \<^verbatim>\<open>OSError\<close> at the
  first removal: the second launcher stays and the source launcher is not created.
\<close>

theorem reconcile_incomparable_counterexample:
  "spec_diff ex_env False [FromDatabase (ex_channel ''3'')]
      [ex_disk ''/share/applications/a.desktop'' ''c1'' ''abc~1'']
     = [Update (FromDatabase (ex_channel ''3''))]
   \<and> reconcile ex_env False [FromDatabase (ex_channel ''3'')]
        [ex_disk ''/share/applications/a.desktop'' ''c1'' ''abc~1'']
        (ex_world [(''/share/applications/a.desktop'', ex_entry_text ''c1'' ''abc~1'')])
     = (Inl ValueError,
        ex_world [(''/share/applications/a.desktop'', ex_entry_text ''c1'' ''abc~1'')])
   \<and> spec_diff ex_env False [FromDatabase (ex_channel ''3'')]
        [ex_disk ''/share/applications/b.desktop'' ''c2'' ''1~5'',
         ex_disk ''/share/applications/c.desktop'' ''c3'' ''1~5'']
     = [Delete (ex_disk ''/share/applications/b.desktop'' ''c2'' ''1~5''),
        Delete (ex_disk ''/share/applications/c.desktop'' ''c3'' ''1~5''),
        Create (FromDatabase (ex_channel ''3''))]
   \<and> reconcile ex_env False [FromDatabase (ex_channel ''3'')]
        [ex_disk ''/share/applications/b.desktop'' ''c2'' ''1~5'',
         ex_disk ''/share/applications/c.desktop'' ''c3'' ''1~5'']
        ((ex_world [(''/share/applications/b.desktop'', ex_entry_text ''c2'' ''1~5''),
                    (''/share/applications/c.desktop'', ex_entry_text ''c3'' ''1~5'')])
           \<lparr>denied := (\<lambda>p. p = ''/share/applications/b.desktop'')\<rparr>)
     = (Inl OSError,
        (ex_world [(''/share/applications/b.desktop'', ex_entry_text ''c2'' ''1~5''),
                   (''/share/applications/c.desktop'', ex_entry_text ''c3'' ''1~5'')])
           \<lparr>denied := (\<lambda>p. p = ''/share/applications/b.desktop''),
            log := [Info ''Removing desktop launcher %s'' [Str ''b.desktop'']]\<rparr>)"
  by (simp add: spec_diff_def spec_source_actions_def ex_eval loop_eval cmp_eval)

section \<open>The change flag\<close>

lemma write_file_log: "log (snd (write_file p t w)) = log w"
  by (simp add: write_file_def)

lemma os_remove_log: "log (snd (os_remove p w)) = log w"
  by (simp add: os_remove_def)

lemma write_channel_icon_log: "log (snd (write_channel_icon e l w)) = log w"
  by (cases l)
     (auto simp: write_file_def Let_def split: sum.splits option.splits prod.splits if_splits)


lemma delete_log: "log (snd (delete e l w)) = log w"
  by (cases l)
     (auto simp: delete_def delete_desktop_file_def os_remove_def try_remove_def Let_def
           split: prod.splits sum.splits if_splits)



















lemmas pass_eval = update_channel_launchers_def FromDatabase_load_all_def reconcile_def
  save_def update_icon_cache_def logger_def desktop_file_path.simps list_ex_iff



section \<open>A second pass\<close>

text \<open>
  C4 as the claim states it fails. The launcher directory holds an entry of the
  channel under another file name, with an older version. The first pass writes the
  entry under the name derived from the channel id and logs no failure; the old
  file stays, since its channel is in the source list. The second pass, with the
  same source list and no forced update, compares against the old file again and
  updates the launcher again.
\<close>

theorem second_pass_updates_again_counterexample:
  "parse_version ex_env (channel_version (FromDatabase (ex_channel ''2''))) = Inr (2, 5)
   \<and> fst (update_channel_launchers ex_env False [ex_channel ''2'']
            (ex_world [(''/share/applications/old.desktop'', ex_entry_text ''c1'' ''1~5'')]))
       = Inr ()
   \<and> log (snd (update_channel_launchers ex_env False [ex_channel ''2'']
                 (ex_world [(''/share/applications/old.desktop'', ex_entry_text ''c1'' ''1~5'')])))
       = [Info ''Updating desktop launcher %s''
            [Str ''org.learningequality.Kolibri.Channel.c1.desktop'']]
   \<and> log (snd (update_channel_launchers ex_env False [ex_channel ''2'']
            (snd (update_channel_launchers ex_env False [ex_channel ''2'']
                 (ex_world [(''/share/applications/old.desktop'', ex_entry_text ''c1'' ''1~5'')])))))
       = [Info ''Updating desktop launcher %s''
            [Str ''org.learningequality.Kolibri.Channel.c1.desktop''],
          Info ''Updating desktop launcher %s''
            [Str ''org.learningequality.Kolibri.Channel.c1.desktop'']]"
  by (simp add: ex_eval load_eval pass_eval cmp_eval int_or_def)

lemma path_join_prefix:
  "b \<noteq> [] \<Longrightarrow> hd b \<noteq> CHR ''/'' \<Longrightarrow> path_join a b = path_join a [] @ b"
  by (simp add: path_join_def)

lemma path_join_prefix_of_join:
  "b \<noteq> [] \<Longrightarrow> last b \<noteq> CHR ''/'' \<Longrightarrow> path_join (x @ b) [] = x @ b @ ''/''"
  by (simp add: path_join_def)

lemma applications_prefix:
  "path_join (applications_dir e) [] = path_join (content_share_dir e) [] @ ''applications/''"
  by (simp add: applications_dir_def path_join_prefix path_join_prefix_of_join)

lemma icon_file_path_prefix:
  "f \<noteq> [] \<Longrightarrow> hd f \<noteq> CHR ''/'' \<Longrightarrow>
   get_icon_file_path e f
     = path_join (content_share_dir e) [] @ ''icons/hicolor/256x256/apps/'' @ f"
  by (simp add: get_icon_file_path_def icon_theme_dir_def path_join_prefix
        path_join_prefix_of_join)

lemma theme_index_prefix:
  "path_join (icon_theme_dir e) ''index.theme''
     = path_join (content_share_dir e) [] @ ''icons/hicolor/index.theme''"
  by (simp add: icon_theme_dir_def path_join_prefix path_join_prefix_of_join)

lemma icon_not_in_applications_dir:
  "f \<noteq> [] \<Longrightarrow> hd f \<noteq> CHR ''/'' \<Longrightarrow> \<not> in_applications_dir e (get_icon_file_path e f)"
  by (simp add: in_applications_dir_def entry_name_def applications_prefix
        icon_file_path_prefix Let_def)

lemma theme_index_not_in_applications_dir:
  "\<not> in_applications_dir e (path_join (icon_theme_dir e) ''index.theme'')"
  by (simp add: in_applications_dir_def entry_name_def applications_prefix
        theme_index_prefix Let_def)

lemma entry_name_Some:
  "entry_name d p = Some n \<Longrightarrow> p = path_join d n \<and> n \<noteq> [] \<and> CHR ''/'' \<notin> set n"
proof -
  assume a: "entry_name d p = Some n"
  let ?pre = "path_join d []"
  from a have t: "take (length ?pre) p = ?pre" and n: "n = drop (length ?pre) p"
    and ne: "n \<noteq> []" and sl: "CHR ''/'' \<notin> set n"
    by (auto simp: entry_name_def Let_def split: if_splits)
  have "p = ?pre @ n" using t n by (metis append_take_drop_id)
  moreover have "hd n \<noteq> CHR ''/''" using ne sl by (cases n) auto
  ultimately show ?thesis using ne sl by (simp add: path_join_prefix)
qed

lemma entry_name_path_join:
  "n \<noteq> [] \<Longrightarrow> CHR ''/'' \<notin> set n \<Longrightarrow> entry_name d (path_join d n) = Some n"
proof -
  assume ne: "n \<noteq> []" and sl: "CHR ''/'' \<notin> set n"
  then have "hd n \<noteq> CHR ''/''" by (cases n) auto
  with ne have "path_join d n = path_join d [] @ n" by (rule path_join_prefix)
  then show ?thesis using ne sl by (simp add: entry_name_def Let_def)
qed

lemma desktop_file_path_in_applications_dir:
  "CHR ''/'' \<notin> set (cm_id cm) \<Longrightarrow> in_applications_dir e (desktop_file_path e (FromDatabase cm))"
  by (simp add: in_applications_dir_def desktop_file_path.simps entry_name_path_join
        LAUNCHER_PREFIX_def)

lemma desktop_file_path_inj:
  "desktop_file_path e (FromDatabase a) = desktop_file_path e (FromDatabase b) \<Longrightarrow>
   cm_id a = cm_id b"
  by (simp add: desktop_file_path.simps path_join_prefix LAUNCHER_PREFIX_def)

lemma lookup_listed:
  assumes "in_applications_dir e p" and "lookup w p = Some content"
  shows "isdir w (applications_dir e)"
    and "\<exists>n \<in> set (listdir w (applications_dir e)). path_join (applications_dir e) n = p"
proof -
  from assms(1) obtain n where n: "entry_name (applications_dir e) p = Some n"
    by (auto simp: in_applications_dir_def)
  from assms(2) have "(p, content) \<in> set (files w)"
    unfolding lookup_def by (rule map_of_SomeD)
  then have key: "p \<in> set (map fst (files w))"
    by force
  from entry_name_Some [OF n] have p: "p = path_join (applications_dir e) n"
    and ne: "n \<noteq> []" and sl: "CHR ''/'' \<notin> set n" by auto
  have "n \<in> set (listdir w (applications_dir e))"
    using key n by (force simp: listdir_def List.map_filter_def)
  then show "\<exists>n \<in> set (listdir w (applications_dir e)). path_join (applications_dir e) n = p"
    using p by auto
  from n have "take (length (path_join (applications_dir e) [])) p = path_join (applications_dir e) []"
    and "length (path_join (applications_dir e) []) < length p"
    by (auto simp: entry_name_def Let_def split: if_splits)
  then show "isdir w (applications_dir e)"
    using key unfolding isdir_def by blast
qed

lemma listed_in_applications_dir:
  "n \<in> set (listdir w d) \<Longrightarrow> entry_name d (path_join d n) = Some n"
proof -
  assume "n \<in> set (listdir w d)"
  then obtain p where "entry_name d p = Some n"
    by (auto simp: listdir_def List.map_filter_def)
  from entry_name_Some [OF this] show ?thesis
    by (simp add: entry_name_path_join)
qed

lemma load_entries_set:
  "load_entries e w d names = Inr ls \<Longrightarrow>
   set ls = {FromDisk (path_join d n) data | n data content.
               n \<in> set names \<and> lookup w (path_join d n) = Some content
               \<and> read_desktop_entry e content = Inr (Some data)}"
proof (induction names arbitrary: ls)
  case Nil
  then show ?case by simp
next
  case (Cons n names)
  show ?case
  proof (cases "lookup w (path_join d n)")
    case None
    with Cons.prems have "load_entries e w d names = Inr ls" by simp
    from Cons.IH [OF this] None show ?thesis by auto
  next
    case (Some content)
    show ?thesis
    proof (cases "read_desktop_entry e content")
      case (Inl err)
      with Cons.prems Some show ?thesis by simp
    next
      case (Inr r)
      show ?thesis
      proof (cases r)
        case None
        with Cons.prems Some Inr have "load_entries e w d names = Inr ls" by simp
        from Cons.IH [OF this] Some Inr None show ?thesis by auto
      next
        case (Some data)
        with Cons.prems \<open>lookup w (path_join d n) = Some content\<close> Inr
        obtain ls' where l: "load_entries e w d names = Inr ls'"
          and ls: "ls = FromDisk (path_join d n) data # ls'"
          by (auto split: sum.splits)
        from Cons.IH [OF l] \<open>lookup w (path_join d n) = Some content\<close> Inr Some ls
        show ?thesis by auto
      qed
    qed
  qed
qed

lemma load_entries_no_error:
  "load_entries e w d names = Inr ls \<Longrightarrow> n \<in> set names \<Longrightarrow>
   lookup w (path_join d n) = Some content \<Longrightarrow> read_desktop_entry e content \<noteq> Inl err"
  by (induction names arbitrary: ls) (auto simp: Let_def split: sum.splits option.splits)

lemma load_all_on_disk:
  assumes "FromDisk_load_all e w = Inr ls"
  shows "d \<in> set ls \<longleftrightarrow> on_disk e w d"
proof (cases "isdir w (applications_dir e)")
  case False
  with assms have "ls = []"
    by (simp add: FromDisk_load_all_def applications_dir_def Let_def)
  moreover have "\<not> on_disk e w d"
    using False lookup_listed(1) unfolding on_disk_def by blast
  ultimately show ?thesis by simp
next
  case True
  let ?A = "applications_dir e"
  from True assms have l: "load_entries e w ?A (listdir w ?A) = Inr ls"
    by (simp add: FromDisk_load_all_def applications_dir_def Let_def)
  note s = load_entries_set [OF l]
  show ?thesis
  proof
    assume "d \<in> set ls"
    with s obtain n data content where d: "d = FromDisk (path_join ?A n) data"
      and n: "n \<in> set (listdir w ?A)" and c: "lookup w (path_join ?A n) = Some content"
      and r: "read_desktop_entry e content = Inr (Some data)"
      by auto
    from listed_in_applications_dir [OF n] have "in_applications_dir e (path_join ?A n)"
      by (simp add: in_applications_dir_def)
    with d c r show "on_disk e w d" unfolding on_disk_def by blast
  next
    assume "on_disk e w d"
    then obtain p content data where d: "d = FromDisk p data"
      and i: "in_applications_dir e p" and c: "lookup w p = Some content"
      and r: "read_desktop_entry e content = Inr (Some data)"
      unfolding on_disk_def by blast
    from lookup_listed(2) [OF i c] obtain n where "n \<in> set (listdir w ?A)"
      and "path_join ?A n = p" by blast
    with d c r s show "d \<in> set ls" by auto
  qed
qed

lemma load_all_no_error:
  assumes "FromDisk_load_all e w = Inr ls"
    and "in_applications_dir e p" and "lookup w p = Some content"
  shows "read_desktop_entry e content \<noteq> Inl err"
proof -
  let ?A = "applications_dir e"
  from lookup_listed [OF assms(2,3)] obtain n where d: "isdir w ?A"
    and n: "n \<in> set (listdir w ?A)" and p: "path_join ?A n = p" by blast
  from d assms(1) have l: "load_entries e w ?A (listdir w ?A) = Inr ls"
    by (simp add: FromDisk_load_all_def applications_dir_def Let_def)
  from load_entries_no_error [OF l n] assms(3) p show ?thesis by simp
qed

lemma load_all_returns:
  assumes "\<forall>p content err. in_applications_dir e p \<and> lookup w p = Some content \<longrightarrow>
             read_desktop_entry e content \<noteq> Inl err"
  shows "\<exists>ls. FromDisk_load_all e w = Inr ls"
proof -
  let ?A = "applications_dir e"
  have "\<forall>n \<in> set (listdir w ?A). \<forall>content err.
          lookup w (path_join ?A n) = Some content \<longrightarrow> read_desktop_entry e content \<noteq> Inl err"
    using assms listed_in_applications_dir [of _ w ?A]
    by (auto simp: in_applications_dir_def)
  then have "\<exists>ls. load_entries e w ?A (listdir w ?A) = Inr ls"
    by (rule load_entries_returns)
  then show ?thesis
    by (simp add: FromDisk_load_all_def applications_dir_def Let_def)
qed

lemma lookup_logger [simp]: "lookup (logger r w) q = lookup w q"
  by (simp add: logger_def lookup_def)

lemma warnings_logger_Info [simp]: "warnings (logger (Info fmt args) w) = warnings w"
  by (simp add: logger_def warnings_def is_warning_def)

lemma warnings_logger_Warning [simp]:
  "warnings (logger (Warning fmt args) w) = warnings w @ [Warning fmt args]"
  by (simp add: logger_def warnings_def is_warning_def)

lemma warnings_of_log: "log w' = log w \<Longrightarrow> warnings w' = warnings w"
  by (simp add: warnings_def)

lemma lookup_os_remove:
  "os_remove p w = (Inr u, w') \<Longrightarrow> lookup w' q = (if q = p then None else lookup w q)"
  by (auto simp: os_remove_def lookup_def delete_conv' split: if_splits)

lemma lookup_try_remove:
  "q \<noteq> p \<Longrightarrow> lookup (try_remove p w) q = lookup w q"
  by (auto simp: try_remove_def os_remove_def lookup_def delete_conv' split: if_splits)

lemma lookup_delete:
  assumes "delete e d w = (Inr u, w')" and "in_applications_dir e q"
  shows "lookup w' q = (if q = desktop_file_path e d then None else lookup w q)"
proof (cases d)
  case (FromDatabase cm)
  with assms(1) show ?thesis
    by (simp add: delete_def split: prod.splits sum.splits)
next
  case (FromDisk p data)
  let ?icon = "get_icon_file_path e ((LAUNCHER_PREFIX @ py_str (channel_id (FromDisk p data))) @ ''.png'')"
  have "\<not> in_applications_dir e ?icon"
    by (rule icon_not_in_applications_dir) (simp_all add: LAUNCHER_PREFIX_def)
  with assms(2) have ne: "q \<noteq> ?icon" by auto
  from assms(1) FromDisk obtain w1 where r: "os_remove p w = (Inr (), w1)"
    and i: "delete_channel_icon e (FromDisk p data) w1 = (Inr u, w')"
    by (auto simp: delete_def delete_desktop_file_def desktop_file_path.simps
             split: prod.splits sum.splits)
  from i have "lookup w' q = lookup w1 q"
    using ne lookup_try_remove [of q ?icon w1]
    by (auto simp: Let_def split: if_splits)
  with lookup_os_remove [OF r, of q] FromDisk show ?thesis
    by (simp add: desktop_file_path.simps)
qed

lemma warnings_delete: "warnings (snd (delete e d w)) = warnings w"
  by (rule warnings_of_log) (rule delete_log)

lemma write_channel_icon_frame:
  assumes "write_channel_icon e (FromDatabase cm) w = (r, w1)"
  shows "log w1 = log w"
    and "in_applications_dir e q \<Longrightarrow> lookup w1 q = lookup w q"
    and "r = Inr n \<Longrightarrow> n = None \<or> n = Some (LAUNCHER_PREFIX @ cm_id cm)"
proof -
  show "log w1 = log w"
    using write_channel_icon_log [of e "FromDatabase cm" w] assms by simp
  let ?icon = "get_icon_file_path e ((LAUNCHER_PREFIX @ cm_id cm) @ file_extension)"
  have ni: "\<not> in_applications_dir e ?icon"
    by (rule icon_not_in_applications_dir) (simp_all add: LAUNCHER_PREFIX_def)
  show "lookup w1 q = lookup w q" if "in_applications_dir e q"
  proof -
    from that ni have "q \<noteq> ?icon" by auto
    then show ?thesis
      using assms
      by (auto simp: write_file_def lookup_def update_conv' Let_def
               split: sum.splits option.splits prod.splits if_splits)
  qed
  show "n = None \<or> n = Some (LAUNCHER_PREFIX @ cm_id cm)" if "r = Inr n"
    using assms that
    by (auto simp: write_file_def Let_def
             split: sum.splits option.splits prod.splits if_splits)
qed

end
